theory Spec2Isabelle
  imports Main
begin

section \<open>Go values and library calls used by the package\<close>

text \<open>
  The package \<open>echo_limiter\<close> is one file: the constants and \<open>DefaultConfig\<close> (lines 15-37),
  the \<open>Config\<close> struct (39-94), \<open>New\<close> (96-100) and \<open>NewWithConfig\<close> (102-200).
  Go's \<open>int\<close>, \<open>int64\<close> and \<open>time.Duration\<close> are modelled by \<open>int\<close> and \<open>uint\<close> by
  \<open>nat\<close>: the package only compares these numbers with zero, copies them and prints
  them, so no arithmetic of its own can overflow. A nil-able function or pointer is an
  \<open>option\<close> (\<open>None\<close> is nil).
\<close>

type_synonym Duration = int
type_synonym Time = int

text \<open>\<open>time.Duration\<close> counts nanoseconds; a \<open>time.Time\<close> is represented by the
  nanoseconds since the Unix epoch. \<open>Unix()\<close> returns the seconds component of the
  instant, whose nanosecond part is never negative: the floor of the division.\<close>

definition Second :: Duration where
  "Second = 1000000000"

definition Minute :: Duration where
  "Minute = 60 * Second"

definition Time_Add :: "Time \<Rightarrow> Duration \<Rightarrow> Time" where
  "Time_Add t d = t + d"

definition Time_Unix :: "Time \<Rightarrow> int" where
  "Time_Unix t = t div Second"

text \<open>\<open>strconv.FormatInt(i, 10)\<close> and \<open>strconv.Itoa\<close>: the decimal digits, with a
  leading minus sign for a negative number.\<close>

definition digit :: "nat \<Rightarrow> char" where
  "digit n = ''0123456789'' ! n"

fun FormatUint :: "nat \<Rightarrow> string" where
  "FormatUint n = (if n < 10 then [digit n] else FormatUint (n div 10) @ [digit (n mod 10)])"

declare FormatUint.simps [simp del]

definition FormatInt :: "int \<Rightarrow> string" where
  "FormatInt i = (if i < 0 then CHR ''-'' # FormatUint (nat (- i)) else FormatUint (nat i))"

definition Itoa :: "int \<Rightarrow> string" where
  "Itoa i = FormatInt i"

text \<open>Go errors: \<open>errors.New(text)\<close>, and echo's \<open>*HTTPError\<close> with its \<open>Code\<close> and its
  \<open>Message\<close> (here always the wrapped error), as \<open>echo.NewHTTPError(code, err)\<close> builds
  it.\<close>

datatype go_error = errorString string | HTTPError int go_error

definition NewHTTPError :: "int \<Rightarrow> go_error \<Rightarrow> go_error" where
  "NewHTTPError code err = HTTPError code err"

definition StatusTooManyRequests :: int where
  "StatusTooManyRequests = 429"

definition StatusInternalServerError :: int where
  "StatusInternalServerError = 500"

text \<open>A panic of the Go runtime: the value given to \<open>panic\<close>, the call of a nil
  function value, or the panic of net/http's \<open>WriteHeader\<close> on a status code outside
  100..999 ("invalid WriteHeader code").\<close>

datatype panic = Panic go_error | NilFuncCall | InvalidWriteHeaderCode int

text \<open>\<open>http.Header\<close> is a map from a header name to its values; \<open>Set\<close> replaces the
  values of a name by one value, \<open>Get\<close> reads the first value or the empty string.
  (net/http folds the case of a name the same way in \<open>Set\<close> and \<open>Get\<close>; the names here
  are the ones the source writes.)\<close>

type_synonym http_Header = "string \<Rightarrow> string list option"

definition Header_Set :: "string \<Rightarrow> string \<Rightarrow> http_Header \<Rightarrow> http_Header" where
  "Header_Set k v h = h(k \<mapsto> [v])"

definition Header_Get :: "string \<Rightarrow> http_Header \<Rightarrow> string" where
  "Header_Get k h = (case h k of None \<Rightarrow> [] | Some [] \<Rightarrow> [] | Some (v # _) \<Rightarrow> v)"

text \<open>echo's \<open>Response\<close>: the header, the status, the body written so far, and the
  \<open>http.ResponseWriter\<close> behind it. The writer belongs to the server: for the status
  written in the header and the bytes given to \<open>Write\<close> it tells how many of them it takes
  and the error it returns, nil when it takes them all.\<close>

record Response =
  Header :: http_Header
  Status :: int
  Body :: string
  Writer :: "int \<Rightarrow> string \<Rightarrow> nat \<times> go_error option"

text \<open>The parts of \<open>echo.Context\<close> the middleware and its default callbacks touch: the
  request, the address \<open>ctx.RealIP()\<close> returns, the response and what was given to
  \<open>ctx.Logger().Error\<close>.\<close>

record 'req Context =
  Request :: 'req
  RealIP :: string
  Response :: Response
  Logger :: "go_error list"

text \<open>A callback receives the context, may change it and returns a value. An
  \<open>echo.HandlerFunc\<close> returns an error or nil (\<open>Inr\<close>), or it panics (\<open>Inl\<close>); either way
  the context is the one it leaves behind. A skipper and a key function return a value:
  one that panics is outside the model (those of \<open>DefaultConfig\<close> do not), as is any
  callback that never returns.\<close>

type_synonym 'req HandlerFunc =
  "'req Context \<Rightarrow> (panic + go_error option) \<times> 'req Context"

text \<open>\<open>ctx.String(code, s)\<close> of echo on a response not yet written. The content type is
  set when the header has none; \<open>WriteHeader(code)\<close> records the status and hands it to
  net/http, which panics on a code outside 100..999, before anything of the body is
  written; else the text is given to the writer, the bytes it takes are the body, and its
  error (or nil) is what \<open>ctx.String\<close> returns.\<close>

definition ctx_String :: "int \<Rightarrow> string \<Rightarrow> 'req HandlerFunc" where
  "ctx_String code s c =
     (let res = Response c;
          h = (if Header_Get ''Content-Type'' (Header res) = []
               then Header_Set ''Content-Type'' ''text/plain; charset=UTF-8'' (Header res)
               else Header res)
      in if code < 100 \<or> 999 < code
         then (Inl (InvalidWriteHeaderCode code),
               c\<lparr>Response := res\<lparr>Header := h, Status := code\<rparr>\<rparr>)
         else (case Writer res code s of
                 (n, err) \<Rightarrow>
                   (Inr err,
                    c\<lparr>Response := res\<lparr>Header := h, Status := code, Body := Body res @ take n s\<rparr>\<rparr>)))"

text \<open>\<open>middleware.DefaultSkipper\<close> of echo returns false for every request.\<close>

definition DefaultSkipper :: "'req Context \<Rightarrow> bool \<times> 'req Context" where
  "DefaultSkipper c = (False, c)"

subsection \<open>The rate-limit engine \<open>go_limiter\<close>\<close>

record Limit =
  Limit_Period :: Duration
  Limit_Algorithm :: nat
  Rate :: int
  Limit_Burst :: int

record Result =
  Allowed :: bool
  Remaining :: int
  RetryAfter :: Duration
  ResetAfter :: Duration

record 'r Limiter =
  rdb :: "'r option"

definition NewLimiter :: "'r option \<Rightarrow> 'r Limiter" where
  "NewLimiter r = \<lparr>rdb = r\<rparr>"

text \<open>The library \<open>go_limiter\<close> is not part of this repository. What the package uses of
  it is a parameter of the model: the value of the constant \<open>SlidingWindowAlgorithm\<close>, and
  \<open>Limiter.Allow\<close>, which reads and changes the counter store \<open>'e\<close> behind the client and
  returns an error or a decision.\<close>

record ('r, 'e) go_limiter =
  SlidingWindowAlgorithm :: nat
  Allow :: "'r Limiter \<Rightarrow> string \<Rightarrow> Limit \<Rightarrow> 'e \<Rightarrow> (go_error + Result) \<times> 'e"

section \<open>Configuration\<close>

definition DefaultKeyPrefix :: string where
  "DefaultKeyPrefix = ''echo_limiter''"

definition defaultMessage :: string where
  "defaultMessage = ''Too many requests, please try again later.''"

definition defaultStatusCode :: int where
  "defaultStatusCode = StatusTooManyRequests"

text \<open>The struct \<open>Config\<close> (lines 39-94). \<open>Max\<close> is written \<open>Max_cfg\<close>.\<close>

record ('req, 'r) Config =
  Skipper :: "('req Context \<Rightarrow> bool \<times> 'req Context) option"
  Rediser :: "'r option"
  Max_cfg :: int
  Burst :: int
  StatusCode :: int
  Message :: string
  Algorithm :: nat
  Prefix :: string
  SkipOnError :: bool
  Period :: Duration
  Key :: "('req Context \<Rightarrow> string \<times> 'req Context) option"
  Handler :: "'req HandlerFunc option"
  ErrHandler :: "(go_error \<Rightarrow> 'req HandlerFunc) option"

text \<open>The function literal of \<open>DefaultConfig.Key\<close> (lines 33-35).\<close>

definition DefaultKey :: "'req Context \<Rightarrow> string \<times> 'req Context" where
  "DefaultKey c = (RealIP c, c)"

text \<open>\<open>DefaultConfig\<close> (lines 23-37); the fields the literal does not name have Go's zero
  value. It is a package variable: the model takes it as initialised, never assigned to
  by the program.\<close>

definition DefaultConfig :: "('r, 'e) go_limiter \<Rightarrow> ('req, 'r) Config" where
  "DefaultConfig lib =
     \<lparr>Skipper = Some DefaultSkipper,
      Rediser = None,
      Max_cfg = 10,
      Burst = 10,
      StatusCode = defaultStatusCode,
      Message = defaultMessage,
      Algorithm = SlidingWindowAlgorithm lib,
      Prefix = DefaultKeyPrefix,
      SkipOnError = False,
      Period = Minute,
      Key = Some DefaultKey,
      Handler = None,
      ErrHandler = None\<rparr>"

text \<open>Lines 107-153 of \<open>NewWithConfig\<close>: one \<open>if\<close> per field, in the order of the source,
  each on the configuration the previous one left. The default \<open>Handler\<close> reads
  \<open>StatusCode\<close> and \<open>Message\<close> of the configuration as resolved before it.\<close>

definition resolve :: "('r, 'e) go_limiter \<Rightarrow> ('req, 'r) Config \<Rightarrow> ('req, 'r) Config" where
  "resolve lib config0 =
     (let config = (if Skipper config0 = None
                    then config0\<lparr>Skipper := Skipper (DefaultConfig lib :: ('req, 'r) Config)\<rparr>
                    else config0);
          config = (if Max_cfg config = 0
                    then config\<lparr>Max_cfg := Max_cfg (DefaultConfig lib :: ('req, 'r) Config)\<rparr>
                    else config);
          config = (if Burst config = 0
                    then config\<lparr>Burst := Burst (DefaultConfig lib :: ('req, 'r) Config)\<rparr>
                    else config);
          config = (if StatusCode config = 0
                    then config\<lparr>StatusCode := StatusCode (DefaultConfig lib :: ('req, 'r) Config)\<rparr>
                    else config);
          config = (if Message config = []
                    then config\<lparr>Message := Message (DefaultConfig lib :: ('req, 'r) Config)\<rparr>
                    else config);
          config = (if Algorithm config = 0
                    then config\<lparr>Algorithm := Algorithm (DefaultConfig lib :: ('req, 'r) Config)\<rparr>
                    else config);
          config = (if Prefix config = []
                    then config\<lparr>Prefix := Prefix (DefaultConfig lib :: ('req, 'r) Config)\<rparr>
                    else config);
          config = (if Period config = 0
                    then config\<lparr>Period := Period (DefaultConfig lib :: ('req, 'r) Config)\<rparr>
                    else config);
          config = (if Key config = None
                    then config\<lparr>Key := Key (DefaultConfig lib :: ('req, 'r) Config)\<rparr>
                    else config);
          config = (if Handler config = None
                    then config\<lparr>Handler := Some (ctx_String (StatusCode config) (Message config))\<rparr>
                    else config);
          config = (if ErrHandler config = None
                    then config\<lparr>ErrHandler :=
                           Some (\<lambda>err ctx. (Inr (Some (NewHTTPError StatusInternalServerError err)), ctx))\<rparr>
                    else config)
      in config)"

section \<open>The request handler\<close>

text \<open>What the handler does to the world outside its own variables is recorded in order:
  the calls of the configured callbacks and of the next handler, the call of
  \<open>limiter.Allow\<close> with its arguments, and every \<open>Header().Set\<close>.\<close>

datatype event =
    SkipperCalled
  | KeyCalled
  | AllowCalled string Limit
  | HeaderSet string string
  | NextCalled
  | HandlerCalled
  | ErrHandlerCalled go_error

text \<open>The state one request runs in: its context, the counter store of the engine, the
  wall clock \<open>time.Now()\<close> reads, and the record of events.\<close>

record ('req, 'e) State =
  ctx :: "'req Context"
  store :: 'e
  clock :: Time
  trace :: "event list"

definition call :: "event \<Rightarrow> ('req Context \<Rightarrow> 'a \<times> 'req Context) \<Rightarrow> ('req, 'e) State
    \<Rightarrow> 'a \<times> ('req, 'e) State" where
  "call ev f s = (case f (ctx s) of (a, c) \<Rightarrow> (a, s\<lparr>ctx := c, trace := trace s @ [ev]\<rparr>))"

definition limiter_Allow :: "('r, 'e) go_limiter \<Rightarrow> 'r Limiter \<Rightarrow> string \<Rightarrow> Limit
    \<Rightarrow> ('req, 'e) State \<Rightarrow> (go_error + Result) \<times> ('req, 'e) State" where
  "limiter_Allow lib limiter k limit s =
     (case Allow lib limiter k limit (store s) of
        (r, e) \<Rightarrow> (r, s\<lparr>store := e, trace := trace s @ [AllowCalled k limit]\<rparr>))"

definition Logger_Error :: "go_error \<Rightarrow> ('req, 'e) State \<Rightarrow> ('req, 'e) State" where
  "Logger_Error err s = s\<lparr>ctx := (ctx s)\<lparr>Logger := Logger (ctx s) @ [err]\<rparr>\<rparr>"

definition Response_Header_Set :: "string \<Rightarrow> string \<Rightarrow> ('req, 'e) State \<Rightarrow> ('req, 'e) State" where
  "Response_Header_Set k v s =
     s\<lparr>ctx := (ctx s)\<lparr>Response := (Response (ctx s))\<lparr>Header := Header_Set k v (Header (Response (ctx s)))\<rparr>\<rparr>,
       trace := trace s @ [HeaderSet k v]\<rparr>"

definition time_Now :: "('req, 'e) State \<Rightarrow> Time" where
  "time_Now s = clock s"

text \<open>Lines 164-198: the function the middleware returns for a next handler. Each path
  ends in \<open>return f(ctx)\<close> for one of the next handler, \<open>Handler\<close> and \<open>ErrHandler\<close>: what
  that call returns, or its panic, is the outcome of the handler, given with the state
  the call leaves (\<open>Inr\<close>). \<open>Inl\<close> is a panic of the handler's own, the call of a nil
  function.\<close>

definition handler :: "('r, 'e) go_limiter \<Rightarrow> ('req, 'r) Config \<Rightarrow> 'r Limiter \<Rightarrow> Limit
    \<Rightarrow> 'req HandlerFunc \<Rightarrow> ('req, 'e) State \<Rightarrow> panic + ((panic + go_error option) \<times> ('req, 'e) State)" where
  "handler lib config limiter limit next s0 =
     (case Skipper config of
        None \<Rightarrow> Inl NilFuncCall
      | Some skipper \<Rightarrow>
          (case call SkipperCalled skipper s0 of
             (skip, s1) \<Rightarrow>
               if skip then Inr (call NextCalled next s1)
               else
                 (case Key config of
                    None \<Rightarrow> Inl NilFuncCall
                  | Some key \<Rightarrow>
                      (case call KeyCalled key s1 of
                         (k, s2) \<Rightarrow>
                           (case limiter_Allow lib limiter k limit s2 of
                              (Inl err, s3) \<Rightarrow>
                                (let s4 = Logger_Error err s3 in
                                 if SkipOnError config then Inr (call NextCalled next s4)
                                 else
                                   (case ErrHandler config of
                                      None \<Rightarrow> Inl NilFuncCall
                                    | Some eh \<Rightarrow> Inr (call (ErrHandlerCalled err) (eh err) s4)))
                            | (Inr result, s3) \<Rightarrow>
                                if \<not> Allowed result then
                                  (let s4 = Response_Header_Set ''Retry-After''
                                              (FormatInt (Time_Unix (Time_Add (time_Now s3) (RetryAfter result)))) s3
                                   in (case Handler config of
                                         None \<Rightarrow> Inl NilFuncCall
                                       | Some h \<Rightarrow> Inr (call HandlerCalled h s4)))
                                else
                                  (let s4 = Response_Header_Set ''X-RateLimit-Limit''
                                              (Itoa (Max_cfg config)) s3;
                                       s5 = Response_Header_Set ''X-RateLimit-Remaining''
                                              (FormatInt (Remaining result)) s4;
                                       s6 = Response_Header_Set ''X-RateLimit-Reset''
                                              (FormatInt (Time_Unix (Time_Add (time_Now s5) (ResetAfter result)))) s5
                                   in Inr (call NextCalled next s6)))))))"

text \<open>Lines 156-161: the limit every call of the engine is given.\<close>

definition limit_of :: "('req, 'r) Config \<Rightarrow> Limit" where
  "limit_of config =
     \<lparr>Limit_Period = Period config,
      Limit_Algorithm = Algorithm config,
      Rate = Max_cfg config,
      Limit_Burst = Burst config\<rparr>"

text \<open>Lines 155-199, on the resolved configuration.\<close>

definition middleware :: "('r, 'e) go_limiter \<Rightarrow> ('req, 'r) Config
    \<Rightarrow> 'req HandlerFunc \<Rightarrow> ('req, 'e) State \<Rightarrow> panic + ((panic + go_error option) \<times> ('req, 'e) State)" where
  "middleware lib config =
     (let limiter = NewLimiter (Rediser config);
          limit = limit_of config
      in (\<lambda>next. handler lib config limiter limit next))"

text \<open>\<open>NewWithConfig\<close> (lines 102-200): the panic on a nil client, else the middleware of
  the resolved configuration.\<close>

definition NewWithConfig :: "('r, 'e) go_limiter \<Rightarrow> ('req, 'r) Config
    \<Rightarrow> panic + ('req HandlerFunc \<Rightarrow> ('req, 'e) State \<Rightarrow> panic + ((panic + go_error option) \<times> ('req, 'e) State))" where
  "NewWithConfig lib config =
     (if Rediser config = None then Inl (Panic (errorString ''redis client is missing''))
      else Inr (middleware lib (resolve lib config)))"

text \<open>\<open>New\<close> (lines 96-100).\<close>

definition New :: "('r, 'e) go_limiter \<Rightarrow> 'r option
    \<Rightarrow> panic + ('req HandlerFunc \<Rightarrow> ('req, 'e) State \<Rightarrow> panic + ((panic + go_error option) \<times> ('req, 'e) State))" where
  "New lib rediser =
     (let config = DefaultConfig lib;
          config = config\<lparr>Rediser := rediser\<rparr>
      in NewWithConfig lib config)"

section \<open>Observations on a run\<close>

text \<open>The events a run from \<open>s\<close> to \<open>s'\<close> added to the record.\<close>

definition new_events :: "('req, 'e) State \<Rightarrow> ('req, 'e) State \<Rightarrow> event list" where
  "new_events s s' = drop (length (trace s)) (trace s')"

fun is_AllowCalled :: "event \<Rightarrow> bool" where
  "is_AllowCalled (AllowCalled k l) = True"
| "is_AllowCalled ev = False"

text \<open>The calls that end the handling of a request: the handler returns what they
  return.\<close>

fun is_terminal :: "event \<Rightarrow> bool" where
  "is_terminal NextCalled = True"
| "is_terminal HandlerCalled = True"
| "is_terminal (ErrHandlerCalled err) = True"
| "is_terminal ev = False"

fun allow_keys :: "event list \<Rightarrow> string list" where
  "allow_keys [] = []"
| "allow_keys (AllowCalled k l # evs) = k # allow_keys evs"
| "allow_keys (ev # evs) = allow_keys evs"

section \<open>Example inputs\<close>

text \<open>An engine that answers from a script: the store is the list of answers still to
  give, one per call of \<open>Allow\<close>. The context of the examples has a writer that takes
  every byte.\<close>

definition ex_lib :: "(nat, (go_error + Result) list) go_limiter" where
  "ex_lib =
     \<lparr>SlidingWindowAlgorithm = 2,
      Allow = (\<lambda>limiter k limit answers.
                 case answers of
                   [] \<Rightarrow> (Inl (errorString ''no answer''), [])
                 | a # rest \<Rightarrow> (a, rest))\<rparr>"

text \<open>The configuration of \<open>examples/main.go\<close>: 3 requests per 10 seconds, an
  algorithm other than the default, every other field at its zero value.\<close>

definition ex_config :: "(string, nat) Config" where
  "ex_config =
     \<lparr>Skipper = None,
      Rediser = Some 1,
      Max_cfg = 3,
      Burst = 3,
      StatusCode = 0,
      Message = [],
      Algorithm = 3,
      Prefix = [],
      SkipOnError = False,
      Period = 10 * Second,
      Key = None,
      Handler = None,
      ErrHandler = None\<rparr>"

definition ex_context :: "string Context" where
  "ex_context =
     \<lparr>Request = ''/'',
      RealIP = ''127.0.0.1'',
      Response = \<lparr>Header = Map.empty, Status = 0, Body = [],
                  Writer = (\<lambda>code b. (length b, None))\<rparr>,
      Logger = []\<rparr>"

definition ex_state :: "(go_error + Result) list \<Rightarrow> (string, (go_error + Result) list) State" where
  "ex_state answers =
     \<lparr>ctx = ex_context, store = answers, clock = 1585918920250000000, trace = []\<rparr>"

definition ex_next :: "string HandlerFunc" where
  "ex_next = ctx_String 200 ''Hello, World!''"

definition ex_allowed :: Result where
  "ex_allowed = \<lparr>Allowed = True, Remaining = 2, RetryAfter = 0, ResetAfter = 5 * Second\<rparr>"

definition ex_denied :: Result where
  "ex_denied = \<lparr>Allowed = False, Remaining = 0, RetryAfter = 30 * Second, ResetAfter = 30 * Second\<rparr>"

definition ex_failure :: go_error where
  "ex_failure = errorString ''connection refused''"

definition ex_skip_all :: "string Context \<Rightarrow> bool \<times> string Context" where
  "ex_skip_all c = (True, c)"

section \<open>Resolved configurations\<close>

text \<open>An \<open>if\<close> that updates one field is an update of that field by an \<open>if\<close>.\<close>

lemma if_update:
  "\<And>b r x. (if b then r\<lparr>Skipper := x\<rparr> else r) = r\<lparr>Skipper := (if b then x else Skipper r)\<rparr>"
  "\<And>b r x. (if b then r\<lparr>Max_cfg := x\<rparr> else r) = r\<lparr>Max_cfg := (if b then x else Max_cfg r)\<rparr>"
  "\<And>b r x. (if b then r\<lparr>Burst := x\<rparr> else r) = r\<lparr>Burst := (if b then x else Burst r)\<rparr>"
  "\<And>b r x. (if b then r\<lparr>StatusCode := x\<rparr> else r) = r\<lparr>StatusCode := (if b then x else StatusCode r)\<rparr>"
  "\<And>b r x. (if b then r\<lparr>Message := x\<rparr> else r) = r\<lparr>Message := (if b then x else Message r)\<rparr>"
  "\<And>b r x. (if b then r\<lparr>Algorithm := x\<rparr> else r) = r\<lparr>Algorithm := (if b then x else Algorithm r)\<rparr>"
  "\<And>b r x. (if b then r\<lparr>Prefix := x\<rparr> else r) = r\<lparr>Prefix := (if b then x else Prefix r)\<rparr>"
  "\<And>b r x. (if b then r\<lparr>Period := x\<rparr> else r) = r\<lparr>Period := (if b then x else Period r)\<rparr>"
  "\<And>b r x. (if b then r\<lparr>Key := x\<rparr> else r) = r\<lparr>Key := (if b then x else Key r)\<rparr>"
  "\<And>b r x. (if b then r\<lparr>Handler := x\<rparr> else r) = r\<lparr>Handler := (if b then x else Handler r)\<rparr>"
  "\<And>b r x. (if b then r\<lparr>ErrHandler := x\<rparr> else r) = r\<lparr>ErrHandler := (if b then x else ErrHandler r)\<rparr>"
  by simp_all

text \<open>The eleven steps of the resolution as one update of the given configuration.\<close>

lemma resolve_closed:
  "resolve lib config =
     config\<lparr>Skipper := (if Skipper config = None then Some DefaultSkipper else Skipper config),
            Max_cfg := (if Max_cfg config = 0 then 10 else Max_cfg config),
            Burst := (if Burst config = 0 then 10 else Burst config),
            StatusCode := (if StatusCode config = 0 then 429 else StatusCode config),
            Message := (if Message config = [] then defaultMessage else Message config),
            Algorithm := (if Algorithm config = 0 then SlidingWindowAlgorithm lib else Algorithm config),
            Prefix := (if Prefix config = [] then DefaultKeyPrefix else Prefix config),
            Period := (if Period config = 0 then Minute else Period config),
            Key := (if Key config = None then Some DefaultKey else Key config),
            Handler := (if Handler config = None
                        then Some (ctx_String (if StatusCode config = 0 then 429 else StatusCode config)
                                              (if Message config = [] then defaultMessage else Message config))
                        else Handler config),
            ErrHandler := (if ErrHandler config = None
                           then Some (\<lambda>err ctx. (Inr (Some (NewHTTPError StatusInternalServerError err)), ctx))
                           else ErrHandler config)\<rparr>"
  unfolding resolve_def
  by (simp add: Let_def if_update DefaultConfig_def defaultStatusCode_def StatusTooManyRequests_def
      split del: if_split cong: let_weak_cong if_cong)

lemma resolve_Skipper:
  "Skipper (resolve lib config) = Some (case Skipper config of None \<Rightarrow> DefaultSkipper | Some f \<Rightarrow> f)"
  by (simp add: resolve_closed split: option.splits)

lemma resolve_Rediser: "Rediser (resolve lib config) = Rediser config"
  by (simp add: resolve_closed)

lemma resolve_Max: "Max_cfg (resolve lib config) = (if Max_cfg config = 0 then 10 else Max_cfg config)"
  by (simp add: resolve_closed)

lemma resolve_Burst: "Burst (resolve lib config) = (if Burst config = 0 then 10 else Burst config)"
  by (simp add: resolve_closed)

lemma resolve_StatusCode:
  "StatusCode (resolve lib config) = (if StatusCode config = 0 then 429 else StatusCode config)"
  by (simp add: resolve_closed)

lemma resolve_Message:
  "Message (resolve lib config) = (if Message config = [] then defaultMessage else Message config)"
  by (simp add: resolve_closed)

lemma resolve_Algorithm:
  "Algorithm (resolve lib config) =
     (if Algorithm config = 0 then SlidingWindowAlgorithm lib else Algorithm config)"
  by (simp add: resolve_closed)

lemma resolve_Prefix:
  "Prefix (resolve lib config) = (if Prefix config = [] then DefaultKeyPrefix else Prefix config)"
  by (simp add: resolve_closed)

lemma resolve_SkipOnError: "SkipOnError (resolve lib config) = SkipOnError config"
  by (simp add: resolve_closed)

lemma resolve_Period:
  "Period (resolve lib config) = (if Period config = 0 then Minute else Period config)"
  by (simp add: resolve_closed)

lemma resolve_Key:
  "Key (resolve lib config) = Some (case Key config of None \<Rightarrow> DefaultKey | Some f \<Rightarrow> f)"
  by (simp add: resolve_closed split: option.splits)

lemma resolve_Handler:
  "Handler (resolve lib config) =
     Some (case Handler config of
             None \<Rightarrow> ctx_String (StatusCode (resolve lib config)) (Message (resolve lib config))
           | Some h \<Rightarrow> h)"
  by (simp add: resolve_closed split: option.splits)

lemma resolve_ErrHandler:
  "ErrHandler (resolve lib config) =
     Some (case ErrHandler config of
             None \<Rightarrow> (\<lambda>err ctx. (Inr (Some (NewHTTPError StatusInternalServerError err)), ctx))
           | Some eh \<Rightarrow> eh)"
  by (simp add: resolve_closed split: option.splits)

lemma resolve_more: "Config.more (resolve lib config) = Config.more config"
  by (simp add: resolve_closed)

lemmas resolve_fields =
  resolve_Skipper resolve_Rediser resolve_Max resolve_Burst resolve_StatusCode resolve_Message
  resolve_Algorithm resolve_Prefix resolve_SkipOnError resolve_Period resolve_Key resolve_Handler
  resolve_ErrHandler

lemma limit_of_resolve:
  "limit_of (resolve lib config) =
     \<lparr>Limit_Period = (if Period config = 0 then Minute else Period config),
      Limit_Algorithm = (if Algorithm config = 0 then SlidingWindowAlgorithm lib else Algorithm config),
      Rate = (if Max_cfg config = 0 then 10 else Max_cfg config),
      Limit_Burst = (if Burst config = 0 then 10 else Burst config)\<rparr>"
  by (simp add: limit_of_def resolve_fields)

section \<open>The five paths of the handler\<close>

text \<open>With all four callbacks present, the handler returns; the result is determined by
  what the skipper, the key function and the engine answer.\<close>

lemma handler_run:
  assumes "Skipper config = Some sk" and "Key config = Some kf"
    and "Handler config = Some h" and "ErrHandler config = Some eh"
    and "sk (ctx s) = (skip, c1)" and "kf c1 = (k, c2)"
    and "Allow lib limiter k limit (store s) = (answer, e)"
  shows "handler lib config limiter limit next s =
     Inr (if skip then (fst (next c1), s\<lparr>ctx := snd (next c1), trace := trace s @ [SkipperCalled, NextCalled]\<rparr>)
          else (case answer of
            Inl err \<Rightarrow>
              (let c3 = c2\<lparr>Logger := Logger c2 @ [err]\<rparr> in
               if SkipOnError config
               then (fst (next c3), s\<lparr>ctx := snd (next c3), store := e,
                       trace := trace s @ [SkipperCalled, KeyCalled, AllowCalled k limit, NextCalled]\<rparr>)
               else (fst (eh err c3), s\<lparr>ctx := snd (eh err c3), store := e,
                       trace := trace s @ [SkipperCalled, KeyCalled, AllowCalled k limit, ErrHandlerCalled err]\<rparr>))
          | Inr result \<Rightarrow>
              if \<not> Allowed result then
                (let v = FormatInt (Time_Unix (Time_Add (clock s) (RetryAfter result)));
                     c3 = c2\<lparr>Response := (Response c2)\<lparr>Header := Header_Set ''Retry-After'' v (Header (Response c2))\<rparr>\<rparr>
                 in (fst (h c3), s\<lparr>ctx := snd (h c3), store := e,
                       trace := trace s @ [SkipperCalled, KeyCalled, AllowCalled k limit,
                                           HeaderSet ''Retry-After'' v, HandlerCalled]\<rparr>))
              else
                (let v1 = Itoa (Max_cfg config);
                     v2 = FormatInt (Remaining result);
                     v3 = FormatInt (Time_Unix (Time_Add (clock s) (ResetAfter result)));
                     c3 = c2\<lparr>Response := (Response c2)\<lparr>Header :=
                            Header_Set ''X-RateLimit-Reset'' v3
                              (Header_Set ''X-RateLimit-Remaining'' v2
                                (Header_Set ''X-RateLimit-Limit'' v1 (Header (Response c2))))\<rparr>\<rparr>
                 in (fst (next c3), s\<lparr>ctx := snd (next c3), store := e,
                       trace := trace s @ [SkipperCalled, KeyCalled, AllowCalled k limit,
                                           HeaderSet ''X-RateLimit-Limit'' v1,
                                           HeaderSet ''X-RateLimit-Remaining'' v2,
                                           HeaderSet ''X-RateLimit-Reset'' v3, NextCalled]\<rparr>))))"
proof (cases skip)
  case True
  with assms show ?thesis
    by (simp add: handler_def call_def split_beta)
next
  case False
  note not_skipped = this
  show ?thesis
  proof (cases answer)
    case (Inl err)
    with not_skipped assms show ?thesis
      by (simp add: handler_def call_def limiter_Allow_def Logger_Error_def Let_def split_beta)
  next
    case (Inr result)
    with not_skipped assms show ?thesis
      by (simp add: handler_def call_def limiter_Allow_def Response_Header_Set_def
          time_Now_def Let_def split_beta)
  qed
qed

lemma NewWithConfig_Inr:
  assumes "NewWithConfig lib config = Inr mw"
  shows "Rediser config \<noteq> None" and "mw = middleware lib (resolve lib config)"
  using assms by (auto simp: NewWithConfig_def split: if_splits)

lemma middleware_handler:
  "middleware lib (resolve lib config) next s =
     handler lib (resolve lib config) (NewLimiter (Rediser config)) (limit_of (resolve lib config)) next s"
  by (simp add: middleware_def Let_def resolve_Rediser)

text \<open>The single paths, for the middleware \<open>NewWithConfig\<close> returns.\<close>

lemma run_skipped:
  assumes "NewWithConfig lib config = Inr mw"
    and "Skipper (resolve lib config) = Some sk" and "sk (ctx s) = (True, c1)"
  shows "mw next s =
     Inr (fst (next c1), s\<lparr>ctx := snd (next c1), trace := trace s @ [SkipperCalled, NextCalled]\<rparr>)"
  unfolding NewWithConfig_Inr(2)[OF assms(1)] middleware_handler
  using assms(2,3) by (simp add: handler_def call_def split_beta)

lemma run_not_skipped:
  assumes "NewWithConfig lib config = Inr mw"
    and "Skipper (resolve lib config) = Some sk" and "sk (ctx s) = (False, c1)"
    and "Key (resolve lib config) = Some kf" and "kf c1 = (k, c2)"
    and "Allow lib (NewLimiter (Rediser config)) k (limit_of (resolve lib config)) (store s) = (answer, e)"
    and "Handler (resolve lib config) = Some h" and "ErrHandler (resolve lib config) = Some eh"
  shows "mw next s =
     Inr (case answer of
            Inl err \<Rightarrow>
              (let c3 = c2\<lparr>Logger := Logger c2 @ [err]\<rparr> in
               if SkipOnError (resolve lib config)
               then (fst (next c3), s\<lparr>ctx := snd (next c3), store := e,
                       trace := trace s @ [SkipperCalled, KeyCalled,
                                           AllowCalled k (limit_of (resolve lib config)), NextCalled]\<rparr>)
               else (fst (eh err c3), s\<lparr>ctx := snd (eh err c3), store := e,
                       trace := trace s @ [SkipperCalled, KeyCalled,
                                           AllowCalled k (limit_of (resolve lib config)),
                                           ErrHandlerCalled err]\<rparr>))
          | Inr result \<Rightarrow>
              if \<not> Allowed result then
                (let v = FormatInt (Time_Unix (Time_Add (clock s) (RetryAfter result)));
                     c3 = c2\<lparr>Response := (Response c2)\<lparr>Header := Header_Set ''Retry-After'' v (Header (Response c2))\<rparr>\<rparr>
                 in (fst (h c3), s\<lparr>ctx := snd (h c3), store := e,
                       trace := trace s @ [SkipperCalled, KeyCalled,
                                           AllowCalled k (limit_of (resolve lib config)),
                                           HeaderSet ''Retry-After'' v, HandlerCalled]\<rparr>))
              else
                (let v1 = Itoa (Max_cfg (resolve lib config));
                     v2 = FormatInt (Remaining result);
                     v3 = FormatInt (Time_Unix (Time_Add (clock s) (ResetAfter result)));
                     c3 = c2\<lparr>Response := (Response c2)\<lparr>Header :=
                            Header_Set ''X-RateLimit-Reset'' v3
                              (Header_Set ''X-RateLimit-Remaining'' v2
                                (Header_Set ''X-RateLimit-Limit'' v1 (Header (Response c2))))\<rparr>\<rparr>
                 in (fst (next c3), s\<lparr>ctx := snd (next c3), store := e,
                       trace := trace s @ [SkipperCalled, KeyCalled,
                                           AllowCalled k (limit_of (resolve lib config)),
                                           HeaderSet ''X-RateLimit-Limit'' v1,
                                           HeaderSet ''X-RateLimit-Remaining'' v2,
                                           HeaderSet ''X-RateLimit-Reset'' v3, NextCalled]\<rparr>)))"
  unfolding NewWithConfig_Inr(2)[OF assms(1)] middleware_handler
  using handler_run[OF assms(2) assms(4) assms(7) assms(8) assms(3) assms(5) assms(6), of "next"]
  by simp

lemma new_events_append [simp]:
  "trace s' = trace s @ evs \<Longrightarrow> new_events s s' = evs"
  by (simp add: new_events_def)

text \<open>Every run of the middleware returns; the events it adds are those of one of the
  five paths.\<close>

lemma run_events:
  assumes "NewWithConfig lib config = Inr mw"
    and "Skipper (resolve lib config) = Some sk" and "sk (ctx s) = (skip, c1)"
    and "Key (resolve lib config) = Some kf" and "kf c1 = (k, c2)"
    and "Allow lib (NewLimiter (Rediser config)) k (limit_of (resolve lib config)) (store s) = (answer, e)"
  shows "\<exists>r s'. mw next s = Inr (r, s') \<and>
           trace s' = trace s @
             (if skip then [SkipperCalled, NextCalled]
              else [SkipperCalled, KeyCalled, AllowCalled k (limit_of (resolve lib config))] @
                (case answer of
                   Inl err \<Rightarrow>
                     if SkipOnError (resolve lib config) then [NextCalled] else [ErrHandlerCalled err]
                 | Inr result \<Rightarrow>
                     if Allowed result
                     then [HeaderSet ''X-RateLimit-Limit'' (Itoa (Max_cfg (resolve lib config))),
                           HeaderSet ''X-RateLimit-Remaining'' (FormatInt (Remaining result)),
                           HeaderSet ''X-RateLimit-Reset''
                             (FormatInt (Time_Unix (Time_Add (clock s) (ResetAfter result)))),
                           NextCalled]
                     else [HeaderSet ''Retry-After''
                             (FormatInt (Time_Unix (Time_Add (clock s) (RetryAfter result)))),
                           HandlerCalled]))"
proof (cases skip)
  case True
  with assms(3) have "sk (ctx s) = (True, c1)" by simp
  from run_skipped [OF assms(1) assms(2) this, of "next"] True show ?thesis
    by simp
next
  case False
  with assms(3) have ns: "sk (ctx s) = (False, c1)" by simp
  obtain h where h: "Handler (resolve lib config) = Some h"
    by (simp add: resolve_Handler)
  obtain eh where eh: "ErrHandler (resolve lib config) = Some eh"
    by (simp add: resolve_ErrHandler)
  from run_not_skipped [OF assms(1) assms(2) ns assms(4) assms(5) assms(6) h eh, of "next"] False
  show ?thesis
    by (cases answer) (simp_all add: Let_def)
qed

text \<open>The names introduced by \<open>run_events\<close> exist for every state.\<close>

lemma run_names:
  obtains sk skip c1 kf k c2 answer e where
    "Skipper (resolve lib config) = Some sk" and "sk (ctx s) = (skip, c1)"
    and "Key (resolve lib config) = Some kf" and "kf c1 = (k, c2)"
    and "Allow lib (NewLimiter (Rediser config)) k (limit_of (resolve lib config)) (store s) = (answer, e)"
proof -
  obtain sk where 1: "Skipper (resolve lib config) = Some sk"
    by (simp add: resolve_Skipper)
  obtain skip c1 where 2: "sk (ctx s) = (skip, c1)"
    by (cases "sk (ctx s)")
  obtain kf where 3: "Key (resolve lib config) = Some kf"
    by (simp add: resolve_Key)
  obtain k c2 where 4: "kf c1 = (k, c2)"
    by (cases "kf c1")
  obtain answer e where
    5: "Allow lib (NewLimiter (Rediser config)) k (limit_of (resolve lib config)) (store s) = (answer, e)"
    by (cases "Allow lib (NewLimiter (Rediser config)) k (limit_of (resolve lib config)) (store s)")
  from 1 2 3 4 5 show thesis by (rule that)
qed

text \<open>A duration of whole seconds moves the Unix time by that many seconds, whatever
  the fraction of the current second.\<close>

lemma Unix_Add_seconds: "Time_Unix (Time_Add t (n * Second)) = Time_Unix t + n"
  by (simp add: Time_Unix_def Time_Add_def Second_def)

lemma ctx_String_valid:
  assumes "100 \<le> code" and "code \<le> 999" and "Writer (Response c) code msg = (n, err)"
  shows "fst (ctx_String code msg c) = Inr err"
    and "Status (Response (snd (ctx_String code msg c))) = code"
    and "Body (Response (snd (ctx_String code msg c))) = Body (Response c) @ take n msg"
  using assms by (simp_all add: ctx_String_def Let_def)

lemma ctx_String_invalid:
  assumes "code < 100 \<or> 999 < code"
  shows "fst (ctx_String code msg c) = Inl (InvalidWriteHeaderCode code)"
    and "Body (Response (snd (ctx_String code msg c))) = Body (Response c)"
  using assms by (auto simp: ctx_String_def Let_def)

lemma ctx_String_Retry_After:
  "Header_Get ''Retry-After'' (Header (Response (snd (ctx_String code msg c))))
     = Header_Get ''Retry-After'' (Header (Response c))"
  by (simp add: ctx_String_def Let_def Header_Get_def Header_Set_def split_beta)

section \<open>Construction\<close>

text \<open>
  C8. Constructing the middleware with a nil \<open>Rediser\<close> panics at construction time, with
  the error "redis client is missing", so that no request handler exists; with a client
  that is not nil, \<open>NewWithConfig\<close> returns a middleware.
\<close>

theorem NewWithConfig_panics_iff_no_client:
  "(Rediser config = None \<longrightarrow>
      NewWithConfig lib config = Inl (Panic (errorString ''redis client is missing'')) \<and>
      (\<forall>mw. NewWithConfig lib config \<noteq> Inr mw)) \<and>
   (Rediser config \<noteq> None \<longrightarrow>
      NewWithConfig lib config = Inr (middleware lib (resolve lib config)))"
  by (simp add: NewWithConfig_def)

theorem NewWithConfig_panics_iff_no_client_witness:
  "NewWithConfig ex_lib (ex_config\<lparr>Rediser := None\<rparr>)
     = (Inl (Panic (errorString ''redis client is missing''))
         :: panic + (string HandlerFunc \<Rightarrow> (string, (go_error + Result) list) State
                      \<Rightarrow> panic + ((panic + go_error option) \<times> (string, (go_error + Result) list) State))) \<and>
   NewWithConfig ex_lib ex_config = Inr (middleware ex_lib (resolve ex_lib ex_config))"
proof -
  have nil: "Rediser (ex_config\<lparr>Rediser := None\<rparr>) = None"
    by simp
  have client: "Rediser ex_config \<noteq> None"
    by (simp add: ex_config_def)
  show ?thesis
    using NewWithConfig_panics_iff_no_client [of "ex_config\<lparr>Rediser := None\<rparr>" ex_lib]
      NewWithConfig_panics_iff_no_client [of ex_config ex_lib] nil client
    by simp
qed

section \<open>The skip path\<close>

text \<open>
  C4. When the resolved skip predicate returns true, the handler calls the next handler on
  the context as the predicate left it and returns its result. Nothing else happens: the
  key function is not called, \<open>Allow\<close> is not called (the counter store is unchanged), and
  no response header is set.
\<close>

theorem skipped_request_is_forwarded_untouched:
  assumes "NewWithConfig lib config = Inr mw"
    and "Skipper (resolve lib config) = Some sk"
    and "sk (ctx s) = (True, c1)"
  shows "mw next s =
           Inr (fst (next c1), s\<lparr>ctx := snd (next c1), trace := trace s @ [SkipperCalled, NextCalled]\<rparr>) \<and>
         (\<forall>r s'. mw next s = Inr (r, s') \<longrightarrow>
            store s' = store s \<and>
            new_events s s' = [SkipperCalled, NextCalled] \<and>
            KeyCalled \<notin> set (new_events s s') \<and>
            (\<forall>k l. AllowCalled k l \<notin> set (new_events s s')) \<and>
            (\<forall>n v. HeaderSet n v \<notin> set (new_events s s')))"
proof -
  have run: "mw next s =
      Inr (fst (next c1), s\<lparr>ctx := snd (next c1), trace := trace s @ [SkipperCalled, NextCalled]\<rparr>)"
    using assms by (rule run_skipped)
  show ?thesis
    unfolding run by (auto simp: new_events_def)
qed

theorem skipped_request_is_forwarded_untouched_witness:
  "(case middleware ex_lib (resolve ex_lib (ex_config\<lparr>Skipper := Some ex_skip_all\<rparr>))
           ex_next (ex_state [Inr ex_denied]) of
      Inl p \<Rightarrow> False
    | Inr (r, s') \<Rightarrow>
        r = Inr None \<and> trace s' = [SkipperCalled, NextCalled] \<and> store s' = [Inr ex_denied] \<and>
        Status (Response (ctx s')) = 200 \<and> Body (Response (ctx s')) = ''Hello, World!'' \<and>
        Header_Get ''Retry-After'' (Header (Response (ctx s'))) = [] \<and>
        Header_Get ''X-RateLimit-Limit'' (Header (Response (ctx s'))) = [])"
proof -
  let ?cfg = "ex_config\<lparr>Skipper := Some ex_skip_all\<rparr>"
  have mw: "NewWithConfig ex_lib ?cfg = Inr (middleware ex_lib (resolve ex_lib ?cfg))"
    by (simp add: NewWithConfig_def ex_config_def)
  have sk: "Skipper (resolve ex_lib ?cfg) = Some ex_skip_all"
    by (simp add: resolve_Skipper)
  have skip: "ex_skip_all (ctx (ex_state [Inr ex_denied])) = (True, ex_context)"
    by (simp add: ex_skip_all_def ex_state_def)
  show ?thesis
    using skipped_request_is_forwarded_untouched [OF mw sk skip, of ex_next]
    by (simp add: ex_next_def ctx_String_def ex_context_def ex_state_def Header_Get_def
        Header_Set_def Let_def)
qed

section \<open>The allowed path\<close>

text \<open>
  C1. For a request that is not skipped and for which the engine answers with a decision
  that allows it, the handler sets exactly three response headers, in this order:
  \<open>X-RateLimit-Limit\<close> to the resolved \<open>Max\<close>, \<open>X-RateLimit-Remaining\<close> to the remaining
  count of the decision and \<open>X-RateLimit-Reset\<close> to the epoch seconds of now plus the
  decision's \<open>ResetAfter\<close>; then it calls the next handler and returns its result. On any
  run that sets one of these three headers the request was not skipped and the engine
  allowed it: they are set on no other path.
\<close>

theorem allowed_request_sets_rate_limit_headers:
  assumes "NewWithConfig lib config = Inr mw"
    and "Skipper (resolve lib config) = Some sk" and "sk (ctx s) = (skip, c1)"
    and "Key (resolve lib config) = Some kf" and "kf c1 = (k, c2)"
    and "Allow lib (NewLimiter (Rediser config)) k (limit_of (resolve lib config)) (store s) = (answer, e)"
  shows "(\<not> skip \<and> answer = Inr result \<and> Allowed result \<longrightarrow>
           (let v1 = Itoa (Max_cfg (resolve lib config));
                v2 = FormatInt (Remaining result);
                v3 = FormatInt (Time_Unix (Time_Add (clock s) (ResetAfter result)));
                c3 = c2\<lparr>Response := (Response c2)\<lparr>Header :=
                       Header_Set ''X-RateLimit-Reset'' v3
                         (Header_Set ''X-RateLimit-Remaining'' v2
                           (Header_Set ''X-RateLimit-Limit'' v1 (Header (Response c2))))\<rparr>\<rparr>
            in mw nxt s =
                 Inr (fst (nxt c3),
                      s\<lparr>ctx := snd (nxt c3), store := e,
                        trace := trace s @
                          [SkipperCalled, KeyCalled, AllowCalled k (limit_of (resolve lib config)),
                           HeaderSet ''X-RateLimit-Limit'' v1,
                           HeaderSet ''X-RateLimit-Remaining'' v2,
                           HeaderSet ''X-RateLimit-Reset'' v3, NextCalled]\<rparr>))) \<and>
         (\<forall>r s' n v.
            mw nxt s = Inr (r, s') \<and> HeaderSet n v \<in> set (new_events s s') \<and>
            n \<in> {''X-RateLimit-Limit'', ''X-RateLimit-Remaining'', ''X-RateLimit-Reset''} \<longrightarrow>
            \<not> skip \<and> (\<exists>res. answer = Inr res \<and> Allowed res))"
proof (intro conjI impI allI)
  assume allowed: "\<not> skip \<and> answer = Inr result \<and> Allowed result"
  with assms(3) have ns: "sk (ctx s) = (False, c1)" by simp
  obtain h where h: "Handler (resolve lib config) = Some h"
    by (simp add: resolve_Handler)
  obtain eh where eh: "ErrHandler (resolve lib config) = Some eh"
    by (simp add: resolve_ErrHandler)
  from run_not_skipped [OF assms(1) assms(2) ns assms(4) assms(5) assms(6) h eh, of nxt] allowed
  show "let v1 = Itoa (Max_cfg (resolve lib config));
            v2 = FormatInt (Remaining result);
            v3 = FormatInt (Time_Unix (Time_Add (clock s) (ResetAfter result)));
            c3 = c2\<lparr>Response := (Response c2)\<lparr>Header :=
                   Header_Set ''X-RateLimit-Reset'' v3
                     (Header_Set ''X-RateLimit-Remaining'' v2
                       (Header_Set ''X-RateLimit-Limit'' v1 (Header (Response c2))))\<rparr>\<rparr>
        in mw nxt s =
             Inr (fst (nxt c3),
                  s\<lparr>ctx := snd (nxt c3), store := e,
                    trace := trace s @
                      [SkipperCalled, KeyCalled, AllowCalled k (limit_of (resolve lib config)),
                       HeaderSet ''X-RateLimit-Limit'' v1,
                       HeaderSet ''X-RateLimit-Remaining'' v2,
                       HeaderSet ''X-RateLimit-Reset'' v3, NextCalled]\<rparr>)"
    by (simp add: Let_def)
next
  fix r s' n v
  assume set: "mw nxt s = Inr (r, s') \<and> HeaderSet n v \<in> set (new_events s s') \<and>
    n \<in> {''X-RateLimit-Limit'', ''X-RateLimit-Remaining'', ''X-RateLimit-Reset''}"
  from run_events [OF assms, of nxt] obtain r0 s0 where
    run: "mw nxt s = Inr (r0, s0)" and
    events: "trace s0 = trace s @
             (if skip then [SkipperCalled, NextCalled]
              else [SkipperCalled, KeyCalled, AllowCalled k (limit_of (resolve lib config))] @
                (case answer of
                   Inl err \<Rightarrow>
                     if SkipOnError (resolve lib config) then [NextCalled] else [ErrHandlerCalled err]
                 | Inr result \<Rightarrow>
                     if Allowed result
                     then [HeaderSet ''X-RateLimit-Limit'' (Itoa (Max_cfg (resolve lib config))),
                           HeaderSet ''X-RateLimit-Remaining'' (FormatInt (Remaining result)),
                           HeaderSet ''X-RateLimit-Reset''
                             (FormatInt (Time_Unix (Time_Add (clock s) (ResetAfter result)))),
                           NextCalled]
                     else [HeaderSet ''Retry-After''
                             (FormatInt (Time_Unix (Time_Add (clock s) (RetryAfter result)))),
                           HandlerCalled]))"
    by blast
  from run set have same: "s' = s0" by simp
  from set have mem: "HeaderSet n v \<in> set (new_events s s0)"
    and name: "n \<noteq> ''Retry-After''"
    unfolding same by auto
  show "\<not> skip"
    using mem unfolding new_events_append [OF events]
    by (auto split: if_splits)
  show "\<exists>res. answer = Inr res \<and> Allowed res"
    using mem name unfolding new_events_append [OF events]
    by (cases answer) (auto split: if_splits)
qed

theorem allowed_request_sets_rate_limit_headers_witness:
  "(case middleware ex_lib (resolve ex_lib ex_config) ex_next (ex_state [Inr ex_allowed]) of
      Inl p \<Rightarrow> False
    | Inr (r, s') \<Rightarrow>
        r = Inr None \<and>
        trace s' =
          [SkipperCalled, KeyCalled,
           AllowCalled ''127.0.0.1''
             \<lparr>Limit_Period = 10000000000, Limit_Algorithm = 3, Rate = 3, Limit_Burst = 3\<rparr>,
           HeaderSet ''X-RateLimit-Limit'' ''3'',
           HeaderSet ''X-RateLimit-Remaining'' ''2'',
           HeaderSet ''X-RateLimit-Reset'' ''1585918925'',
           NextCalled] \<and>
        Header_Get ''X-RateLimit-Limit'' (Header (Response (ctx s'))) = ''3'' \<and>
        Header_Get ''X-RateLimit-Remaining'' (Header (Response (ctx s'))) = ''2'' \<and>
        Header_Get ''X-RateLimit-Reset'' (Header (Response (ctx s'))) = ''1585918925'' \<and>
        Header_Get ''Retry-After'' (Header (Response (ctx s'))) = [] \<and>
        Status (Response (ctx s')) = 200 \<and> store s' = [])"
proof -
  have mw: "NewWithConfig ex_lib ex_config = Inr (middleware ex_lib (resolve ex_lib ex_config))"
    by (simp add: NewWithConfig_def ex_config_def)
  have sk: "Skipper (resolve ex_lib ex_config) = Some DefaultSkipper"
    by (simp add: resolve_Skipper ex_config_def)
  have skip: "DefaultSkipper (ctx (ex_state [Inr ex_allowed])) = (False, ex_context)"
    by (simp add: DefaultSkipper_def ex_state_def)
  have kf: "Key (resolve ex_lib ex_config) = Some DefaultKey"
    by (simp add: resolve_Key ex_config_def)
  have key: "DefaultKey ex_context = (''127.0.0.1'', ex_context)"
    by (simp add: DefaultKey_def ex_context_def)
  have allow: "Allow ex_lib (NewLimiter (Rediser ex_config)) ''127.0.0.1''
      (limit_of (resolve ex_lib ex_config)) (store (ex_state [Inr ex_allowed])) = (Inr ex_allowed, [])"
    by (simp add: ex_lib_def ex_state_def)
  have allowed: "\<not> False \<and> (Inr ex_allowed :: go_error + Result) = Inr ex_allowed \<and> Allowed ex_allowed"
    by (simp add: ex_allowed_def)
  have printed: "Itoa (Max_cfg (resolve ex_lib ex_config)) = ''3''"
    "FormatInt (Remaining ex_allowed) = ''2''"
    "FormatInt (Time_Unix (Time_Add 1585918920250000000 (ResetAfter ex_allowed))) = ''1585918925''"
    "limit_of (resolve ex_lib ex_config)
       = \<lparr>Limit_Period = 10000000000, Limit_Algorithm = 3, Rate = 3, Limit_Burst = 3\<rparr>"
    by (simp_all add: resolve_Max limit_of_resolve ex_config_def ex_allowed_def ex_state_def Itoa_def
        FormatInt_def FormatUint.simps digit_def Time_Unix_def Time_Add_def Second_def)
  from allowed_request_sets_rate_limit_headers
         [OF mw sk skip kf key allow, where result = ex_allowed and nxt = ex_next] allowed
  show ?thesis
    by (simp add: printed Let_def ex_next_def ctx_String_def ex_context_def ex_state_def
        Header_Get_def Header_Set_def)
qed

section \<open>The denied path\<close>

text \<open>
  C2, as stated, fails where it says what the default \<open>Handler\<close> does: it calls
  \<open>ctx.String\<close> with the resolved \<open>StatusCode\<close>, and resolution keeps every \<open>StatusCode\<close>
  that is not zero (lines 119-121). With \<open>Config{StatusCode: -1}\<close> and a denied request
  the default \<open>Handler\<close> panics in \<open>WriteHeader\<close>: it returns nothing and no byte of the
  message is written.
\<close>

theorem default_Handler_panics_on_invalid_StatusCode:
  "StatusCode (resolve ex_lib (ex_config\<lparr>StatusCode := - 1\<rparr>)) = - 1 \<and>
   (case middleware ex_lib (resolve ex_lib (ex_config\<lparr>StatusCode := - 1\<rparr>))
           ex_next (ex_state [Inr ex_denied]) of
      Inl p \<Rightarrow> False
    | Inr (r, s') \<Rightarrow>
        r = Inl (InvalidWriteHeaderCode (- 1)) \<and> Body (Response (ctx s')) = [] \<and>
        trace s' =
          [SkipperCalled, KeyCalled,
           AllowCalled ''127.0.0.1''
             \<lparr>Limit_Period = 10000000000, Limit_Algorithm = 3, Rate = 3, Limit_Burst = 3\<rparr>,
           HeaderSet ''Retry-After'' ''1585918950'',
           HandlerCalled])"
proof -
  let ?cfg = "ex_config\<lparr>StatusCode := - 1\<rparr>"
  have mw: "NewWithConfig ex_lib ?cfg = Inr (middleware ex_lib (resolve ex_lib ?cfg))"
    by (simp add: NewWithConfig_def ex_config_def)
  have sk: "Skipper (resolve ex_lib ?cfg) = Some DefaultSkipper"
    by (simp add: resolve_Skipper ex_config_def)
  have skip: "DefaultSkipper (ctx (ex_state [Inr ex_denied])) = (False, ex_context)"
    by (simp add: DefaultSkipper_def ex_state_def)
  have kf: "Key (resolve ex_lib ?cfg) = Some DefaultKey"
    by (simp add: resolve_Key ex_config_def)
  have key: "DefaultKey ex_context = (''127.0.0.1'', ex_context)"
    by (simp add: DefaultKey_def ex_context_def)
  have allow: "Allow ex_lib (NewLimiter (Rediser ?cfg)) ''127.0.0.1''
      (limit_of (resolve ex_lib ?cfg)) (store (ex_state [Inr ex_denied])) = (Inr ex_denied, [])"
    by (simp add: ex_lib_def ex_state_def)
  have h: "Handler (resolve ex_lib ?cfg) = Some (ctx_String (- 1) defaultMessage)"
    by (simp add: resolve_Handler resolve_StatusCode resolve_Message ex_config_def)
  have eh: "ErrHandler (resolve ex_lib ?cfg)
      = Some (\<lambda>err ctx. (Inr (Some (NewHTTPError StatusInternalServerError err)), ctx))"
    by (simp add: resolve_ErrHandler ex_config_def)
  have printed:
    "FormatInt (Time_Unix (Time_Add 1585918920250000000 (RetryAfter ex_denied))) = ''1585918950''"
    "limit_of (resolve ex_lib ?cfg)
       = \<lparr>Limit_Period = 10000000000, Limit_Algorithm = 3, Rate = 3, Limit_Burst = 3\<rparr>"
    "\<not> Allowed ex_denied"
    by (simp_all add: limit_of_resolve ex_config_def ex_denied_def
        FormatInt_def FormatUint.simps digit_def Time_Unix_def Time_Add_def Second_def)
  have "StatusCode (resolve ex_lib ?cfg) = - 1"
    by (simp add: resolve_StatusCode)
  with run_not_skipped [OF mw sk skip kf key allow h eh, of ex_next] show ?thesis
    by (simp add: printed Let_def ctx_String_def ex_context_def ex_state_def)
qed

text \<open>
  C2, amended. For a request that is not skipped and for which the engine answers with a
  decision that does not allow it, the handler sets \<open>Retry-After\<close> to the epoch seconds of
  now plus the decision's \<open>RetryAfter\<close> (an absolute time, not the duration), then calls
  the resolved \<open>Handler\<close>, whose outcome is the handler's; the next handler is not called.
  On any run that sets \<open>Retry-After\<close> the request was not skipped and the engine denied it.
  The default \<open>Handler\<close> never touches \<open>Retry-After\<close>. When the resolved \<open>StatusCode\<close> (429
  when none is configured) lies in 100..999 it writes that status and gives the resolved
  \<open>Message\<close> to the response writer: the bytes the writer takes are appended to the body
  and the writer's error is returned, so a writer that takes the whole message leaves the
  message as body and nil as result. For a \<open>StatusCode\<close> outside 100..999 it panics and
  writes nothing to the body.
\<close>

theorem denied_request_sets_retry_after:
  fixes h :: "'req HandlerFunc"
  assumes "NewWithConfig lib config = Inr mw"
    and "Skipper (resolve lib config) = Some sk" and "sk (ctx s) = (skip, c1)"
    and "Key (resolve lib config) = Some kf" and "kf c1 = (k, c2)"
    and "Allow lib (NewLimiter (Rediser config)) k (limit_of (resolve lib config)) (store s) = (answer, e)"
    and "Handler (resolve lib config) = Some h"
  shows "(\<not> skip \<and> answer = Inr result \<and> \<not> Allowed result \<longrightarrow>
           (let v = FormatInt (Time_Unix (Time_Add (clock s) (RetryAfter result)));
                c3 = c2\<lparr>Response := (Response c2)\<lparr>Header :=
                       Header_Set ''Retry-After'' v (Header (Response c2))\<rparr>\<rparr>
            in mw nxt s =
                 Inr (fst (h c3),
                      s\<lparr>ctx := snd (h c3), store := e,
                        trace := trace s @
                          [SkipperCalled, KeyCalled, AllowCalled k (limit_of (resolve lib config)),
                           HeaderSet ''Retry-After'' v, HandlerCalled]\<rparr>))) \<and>
         (Handler config = None \<longrightarrow>
            h = ctx_String (StatusCode (resolve lib config)) (Message (resolve lib config)) \<and>
            (\<forall>c. Header_Get ''Retry-After'' (Header (Response (snd (h c))))
                   = Header_Get ''Retry-After'' (Header (Response c))) \<and>
            (\<forall>c n err.
               100 \<le> StatusCode (resolve lib config) \<and> StatusCode (resolve lib config) \<le> 999 \<and>
               Writer (Response c) (StatusCode (resolve lib config)) (Message (resolve lib config))
                 = (n, err) \<longrightarrow>
               fst (h c) = Inr err \<and>
               Status (Response (snd (h c))) = StatusCode (resolve lib config) \<and>
               Body (Response (snd (h c)))
                 = Body (Response c) @ take n (Message (resolve lib config))) \<and>
            (\<forall>c.
               100 \<le> StatusCode (resolve lib config) \<and> StatusCode (resolve lib config) \<le> 999 \<and>
               Writer (Response c) (StatusCode (resolve lib config)) (Message (resolve lib config))
                 = (length (Message (resolve lib config)), None) \<longrightarrow>
               fst (h c) = Inr None \<and>
               Status (Response (snd (h c))) = StatusCode (resolve lib config) \<and>
               Body (Response (snd (h c))) = Body (Response c) @ Message (resolve lib config)) \<and>
            (\<forall>c.
               StatusCode (resolve lib config) < 100 \<or> 999 < StatusCode (resolve lib config) \<longrightarrow>
               fst (h c) = Inl (InvalidWriteHeaderCode (StatusCode (resolve lib config))) \<and>
               Body (Response (snd (h c))) = Body (Response c)) \<and>
            (StatusCode config = 0 \<longrightarrow> StatusCode (resolve lib config) = 429) \<and>
            (StatusCode config \<noteq> 0 \<longrightarrow> StatusCode (resolve lib config) = StatusCode config) \<and>
            (Message config = [] \<longrightarrow> Message (resolve lib config) = defaultMessage) \<and>
            (Message config \<noteq> [] \<longrightarrow> Message (resolve lib config) = Message config)) \<and>
         (\<forall>r s' v.
            mw nxt s = Inr (r, s') \<and> HeaderSet ''Retry-After'' v \<in> set (new_events s s') \<longrightarrow>
            \<not> skip \<and> (\<exists>res. answer = Inr res \<and> \<not> Allowed res))"
proof (intro conjI impI allI)
  assume denied: "\<not> skip \<and> answer = Inr result \<and> \<not> Allowed result"
  with assms(3) have ns: "sk (ctx s) = (False, c1)" by simp
  obtain eh where eh: "ErrHandler (resolve lib config) = Some eh"
    by (simp add: resolve_ErrHandler)
  from run_not_skipped [OF assms(1) assms(2) ns assms(4) assms(5) assms(6) assms(7) eh, of nxt] denied
  show "let v = FormatInt (Time_Unix (Time_Add (clock s) (RetryAfter result)));
            c3 = c2\<lparr>Response := (Response c2)\<lparr>Header :=
                   Header_Set ''Retry-After'' v (Header (Response c2))\<rparr>\<rparr>
        in mw nxt s =
             Inr (fst (h c3),
                  s\<lparr>ctx := snd (h c3), store := e,
                    trace := trace s @
                      [SkipperCalled, KeyCalled, AllowCalled k (limit_of (resolve lib config)),
                       HeaderSet ''Retry-After'' v, HandlerCalled]\<rparr>)"
    by (simp add: Let_def)
next
  assume "Handler config = None"
  with assms(7) show default: "h = ctx_String (StatusCode (resolve lib config)) (Message (resolve lib config))"
    by (simp add: resolve_Handler)
  {
    fix c :: "'req Context"
    show "Header_Get ''Retry-After'' (Header (Response (snd (h c))))
           = Header_Get ''Retry-After'' (Header (Response c))"
      unfolding default by (rule ctx_String_Retry_After)
  }
  {
    fix c :: "'req Context" and n err
    assume valid: "100 \<le> StatusCode (resolve lib config) \<and> StatusCode (resolve lib config) \<le> 999 \<and>
       Writer (Response c) (StatusCode (resolve lib config)) (Message (resolve lib config)) = (n, err)"
    then have 1: "100 \<le> StatusCode (resolve lib config)"
      and 2: "StatusCode (resolve lib config) \<le> 999"
      and 3: "Writer (Response c) (StatusCode (resolve lib config)) (Message (resolve lib config)) = (n, err)"
      by simp_all
    show "fst (h c) = Inr err"
      unfolding default by (rule ctx_String_valid(1) [OF 1 2 3])
    show "Status (Response (snd (h c))) = StatusCode (resolve lib config)"
      unfolding default by (rule ctx_String_valid(2) [OF 1 2 3])
    show "Body (Response (snd (h c))) = Body (Response c) @ take n (Message (resolve lib config))"
      unfolding default by (rule ctx_String_valid(3) [OF 1 2 3])
  }
  {
    fix c :: "'req Context"
    assume whole: "100 \<le> StatusCode (resolve lib config) \<and> StatusCode (resolve lib config) \<le> 999 \<and>
       Writer (Response c) (StatusCode (resolve lib config)) (Message (resolve lib config))
         = (length (Message (resolve lib config)), None)"
    then have 1: "100 \<le> StatusCode (resolve lib config)"
      and 2: "StatusCode (resolve lib config) \<le> 999"
      and 3: "Writer (Response c) (StatusCode (resolve lib config)) (Message (resolve lib config))
         = (length (Message (resolve lib config)), None)"
      by simp_all
    show "fst (h c) = Inr None"
      unfolding default by (rule ctx_String_valid(1) [OF 1 2 3])
    show "Status (Response (snd (h c))) = StatusCode (resolve lib config)"
      unfolding default by (rule ctx_String_valid(2) [OF 1 2 3])
    show "Body (Response (snd (h c))) = Body (Response c) @ Message (resolve lib config)"
      unfolding default using ctx_String_valid(3) [OF 1 2 3] by simp
  }
  {
    fix c :: "'req Context"
    assume invalid: "StatusCode (resolve lib config) < 100 \<or> 999 < StatusCode (resolve lib config)"
    show "fst (h c) = Inl (InvalidWriteHeaderCode (StatusCode (resolve lib config)))"
      unfolding default by (rule ctx_String_invalid(1) [OF invalid])
    show "Body (Response (snd (h c))) = Body (Response c)"
      unfolding default by (rule ctx_String_invalid(2) [OF invalid])
  }
next
  assume "StatusCode config = 0"
  then show "StatusCode (resolve lib config) = 429" by (simp add: resolve_StatusCode)
next
  assume "StatusCode config \<noteq> 0"
  then show "StatusCode (resolve lib config) = StatusCode config" by (simp add: resolve_StatusCode)
next
  assume "Message config = []"
  then show "Message (resolve lib config) = defaultMessage" by (simp add: resolve_Message)
next
  assume "Message config \<noteq> []"
  then show "Message (resolve lib config) = Message config" by (simp add: resolve_Message)
next
  fix r s' v
  assume set: "mw nxt s = Inr (r, s') \<and> HeaderSet ''Retry-After'' v \<in> set (new_events s s')"
  from run_events [OF assms(1-6), of nxt] obtain r0 s0 where
    run: "mw nxt s = Inr (r0, s0)" and
    events: "trace s0 = trace s @
             (if skip then [SkipperCalled, NextCalled]
              else [SkipperCalled, KeyCalled, AllowCalled k (limit_of (resolve lib config))] @
                (case answer of
                   Inl err \<Rightarrow>
                     if SkipOnError (resolve lib config) then [NextCalled] else [ErrHandlerCalled err]
                 | Inr result \<Rightarrow>
                     if Allowed result
                     then [HeaderSet ''X-RateLimit-Limit'' (Itoa (Max_cfg (resolve lib config))),
                           HeaderSet ''X-RateLimit-Remaining'' (FormatInt (Remaining result)),
                           HeaderSet ''X-RateLimit-Reset''
                             (FormatInt (Time_Unix (Time_Add (clock s) (ResetAfter result)))),
                           NextCalled]
                     else [HeaderSet ''Retry-After''
                             (FormatInt (Time_Unix (Time_Add (clock s) (RetryAfter result)))),
                           HandlerCalled]))"
    by blast
  from run set have same: "s' = s0" by simp
  from set have mem: "HeaderSet ''Retry-After'' v \<in> set (new_events s s0)"
    unfolding same by simp
  show "\<not> skip"
    using mem unfolding new_events_append [OF events]
    by (auto split: if_splits)
  show "\<exists>res. answer = Inr res \<and> \<not> Allowed res"
    using mem unfolding new_events_append [OF events]
    by (cases answer) (auto split: if_splits)
qed

theorem denied_request_sets_retry_after_witness:
  "(case middleware ex_lib (resolve ex_lib ex_config) ex_next (ex_state [Inr ex_denied]) of
      Inl p \<Rightarrow> False
    | Inr (r, s') \<Rightarrow>
        r = Inr None \<and>
        trace s' =
          [SkipperCalled, KeyCalled,
           AllowCalled ''127.0.0.1''
             \<lparr>Limit_Period = 10000000000, Limit_Algorithm = 3, Rate = 3, Limit_Burst = 3\<rparr>,
           HeaderSet ''Retry-After'' ''1585918950'',
           HandlerCalled] \<and>
        Header_Get ''Retry-After'' (Header (Response (ctx s'))) = ''1585918950'' \<and>
        Header_Get ''X-RateLimit-Limit'' (Header (Response (ctx s'))) = [] \<and>
        Status (Response (ctx s')) = 429 \<and>
        Body (Response (ctx s')) = ''Too many requests, please try again later.'' \<and>
        store s' = [])"
proof -
  define h :: "string HandlerFunc" where
    "h = ctx_String (StatusCode (resolve ex_lib ex_config)) (Message (resolve ex_lib ex_config))"
  define c3 where
    "c3 = ex_context\<lparr>Response := (Response ex_context)\<lparr>Header :=
            Header_Set ''Retry-After'' ''1585918950'' (Header (Response ex_context))\<rparr>\<rparr>"
  have mw: "NewWithConfig ex_lib ex_config = Inr (middleware ex_lib (resolve ex_lib ex_config))"
    by (simp add: NewWithConfig_def ex_config_def)
  have sk: "Skipper (resolve ex_lib ex_config) = Some DefaultSkipper"
    by (simp add: resolve_Skipper ex_config_def)
  have skip: "DefaultSkipper (ctx (ex_state [Inr ex_denied])) = (False, ex_context)"
    by (simp add: DefaultSkipper_def ex_state_def)
  have kf: "Key (resolve ex_lib ex_config) = Some DefaultKey"
    by (simp add: resolve_Key ex_config_def)
  have key: "DefaultKey ex_context = (''127.0.0.1'', ex_context)"
    by (simp add: DefaultKey_def ex_context_def)
  have allow: "Allow ex_lib (NewLimiter (Rediser ex_config)) ''127.0.0.1''
      (limit_of (resolve ex_lib ex_config)) (store (ex_state [Inr ex_denied])) = (Inr ex_denied, [])"
    by (simp add: ex_lib_def ex_state_def)
  have handler: "Handler (resolve ex_lib ex_config) = Some h"
    by (simp add: h_def resolve_Handler ex_config_def)
  have denied: "\<not> False \<and> (Inr ex_denied :: go_error + Result) = Inr ex_denied \<and> \<not> Allowed ex_denied"
    by (simp add: ex_denied_def)
  have default: "Handler ex_config = None"
    by (simp add: ex_config_def)
  have printed:
    "FormatInt (Time_Unix (Time_Add (clock (ex_state [Inr ex_denied])) (RetryAfter ex_denied)))
       = ''1585918950''"
    "limit_of (resolve ex_lib ex_config)
       = \<lparr>Limit_Period = 10000000000, Limit_Algorithm = 3, Rate = 3, Limit_Burst = 3\<rparr>"
    "StatusCode (resolve ex_lib ex_config) = 429"
    "Message (resolve ex_lib ex_config) = ''Too many requests, please try again later.''"
    by (simp_all add: resolve_StatusCode resolve_Message limit_of_resolve ex_config_def ex_denied_def
        ex_state_def defaultMessage_def FormatInt_def FormatUint.simps digit_def Time_Unix_def
        Time_Add_def Second_def)
  have given: "Body (Response c3) = []"
    "Header_Get ''Retry-After'' (Header (Response c3)) = ''1585918950''"
    by (simp_all add: c3_def ex_context_def Header_Get_def Header_Set_def)
  have takes: "100 \<le> StatusCode (resolve ex_lib ex_config) \<and> StatusCode (resolve ex_lib ex_config) \<le> 999 \<and>
      Writer (Response c3) (StatusCode (resolve ex_lib ex_config)) (Message (resolve ex_lib ex_config))
        = (length (Message (resolve ex_lib ex_config)), None)"
    by (simp add: printed c3_def ex_context_def)
  note inst = denied_request_sets_retry_after
         [OF mw sk skip kf key allow handler, where result = ex_denied and nxt = ex_next]
  from inst denied have run:
    "middleware ex_lib (resolve ex_lib ex_config) ex_next (ex_state [Inr ex_denied]) =
       Inr (fst (h c3),
            (ex_state [Inr ex_denied])\<lparr>ctx := snd (h c3), store := [],
               trace := trace (ex_state [Inr ex_denied]) @
                 [SkipperCalled, KeyCalled, AllowCalled ''127.0.0.1'' (limit_of (resolve ex_lib ex_config)),
                  HeaderSet ''Retry-After'' ''1585918950'', HandlerCalled]\<rparr>)"
    unfolding Let_def printed(1) c3_def by blast
  from inst default takes have written:
    "fst (h c3) = Inr None"
    "Status (Response (snd (h c3))) = StatusCode (resolve ex_lib ex_config)"
    "Body (Response (snd (h c3))) = Body (Response c3) @ Message (resolve ex_lib ex_config)"
    "Header_Get ''Retry-After'' (Header (Response (snd (h c3))))
       = Header_Get ''Retry-After'' (Header (Response c3))"
    by blast+
  have limit_header: "Header_Get ''X-RateLimit-Limit'' (Header (Response (snd (h c3)))) = []"
    by (simp add: h_def c3_def printed ctx_String_def Let_def ex_context_def Header_Get_def
        Header_Set_def)
  show ?thesis
    unfolding run
    by (simp add: written given limit_header printed(2,3,4) ex_state_def)
qed

section \<open>The engine-error paths\<close>

text \<open>
  C3, as stated, fails where it says that the status of the default \<open>ErrHandler\<close> differs
  from the denial \<open>StatusCode\<close>: the default \<open>ErrHandler\<close> always answers 500, and
  \<open>StatusCode\<close> is whatever the configuration gives. With \<open>StatusCode: 500\<close> and no handler
  configured, an engine error returns an \<open>HTTPError\<close> of code 500 and a denial writes the
  status 500.
\<close>

theorem error_status_equals_configured_denial_status:
  "StatusCode (resolve ex_lib (ex_config\<lparr>StatusCode := 500\<rparr>)) = 500 \<and>
   (case middleware ex_lib (resolve ex_lib (ex_config\<lparr>StatusCode := 500\<rparr>))
           ex_next (ex_state [Inl ex_failure]) of
      Inl p \<Rightarrow> False
    | Inr (r, s') \<Rightarrow> r = Inr (Some (HTTPError 500 ex_failure))) \<and>
   (case middleware ex_lib (resolve ex_lib (ex_config\<lparr>StatusCode := 500\<rparr>))
           ex_next (ex_state [Inr ex_denied]) of
      Inl p \<Rightarrow> False
    | Inr (r, s') \<Rightarrow> r = Inr None \<and> Status (Response (ctx s')) = 500)"
proof -
  let ?cfg = "ex_config\<lparr>StatusCode := 500\<rparr>"
  have mw: "NewWithConfig ex_lib ?cfg = Inr (middleware ex_lib (resolve ex_lib ?cfg))"
    by (simp add: NewWithConfig_def ex_config_def)
  have sk: "Skipper (resolve ex_lib ?cfg) = Some DefaultSkipper"
    by (simp add: resolve_Skipper ex_config_def)
  have skip: "DefaultSkipper (ctx (ex_state a)) = (False, ex_context)" for a
    by (simp add: DefaultSkipper_def ex_state_def)
  have kf: "Key (resolve ex_lib ?cfg) = Some DefaultKey"
    by (simp add: resolve_Key ex_config_def)
  have key: "DefaultKey ex_context = (''127.0.0.1'', ex_context)"
    by (simp add: DefaultKey_def ex_context_def)
  have allow: "Allow ex_lib (NewLimiter (Rediser ?cfg)) ''127.0.0.1''
      (limit_of (resolve ex_lib ?cfg)) (store (ex_state [a])) = (a, [])" for a
    by (simp add: ex_lib_def ex_state_def)
  have h: "Handler (resolve ex_lib ?cfg) = Some (ctx_String 500 defaultMessage)"
    by (simp add: resolve_Handler resolve_StatusCode resolve_Message ex_config_def)
  have eh: "ErrHandler (resolve ex_lib ?cfg)
      = Some (\<lambda>err ctx. (Inr (Some (NewHTTPError StatusInternalServerError err)), ctx))"
    by (simp add: resolve_ErrHandler ex_config_def)
  have failed: "(case middleware ex_lib (resolve ex_lib ?cfg) ex_next (ex_state [Inl ex_failure]) of
      Inl p \<Rightarrow> False
    | Inr (r, s') \<Rightarrow> r = Inr (Some (HTTPError 500 ex_failure)))"
    using run_not_skipped
      [OF mw sk skip [of "[Inl ex_failure]"] kf key allow [of "Inl ex_failure"] h eh, of ex_next]
    by (simp add: Let_def resolve_SkipOnError ex_config_def NewHTTPError_def
        StatusInternalServerError_def)
  have denied: "(case middleware ex_lib (resolve ex_lib ?cfg) ex_next (ex_state [Inr ex_denied]) of
      Inl p \<Rightarrow> False
    | Inr (r, s') \<Rightarrow> r = Inr None \<and> Status (Response (ctx s')) = 500)"
    using run_not_skipped
      [OF mw sk skip [of "[Inr ex_denied]"] kf key allow [of "Inr ex_denied"] h eh, of ex_next]
    by (simp add: Let_def ex_denied_def ctx_String_def ex_context_def)
  have "StatusCode (resolve ex_lib ?cfg) = 500"
    by (simp add: resolve_StatusCode)
  with failed denied show ?thesis
    by simp
qed

text \<open>
  C3, amended. For a request that is not skipped and for which the engine call returns an
  error, the error is logged; if the resolved \<open>SkipOnError\<close> is true, the next handler is
  called and no response header is set; if it is false (the default, since the field is
  never substituted), the resolved \<open>ErrHandler\<close> is called with the error and its result is
  returned, and the next handler is not called. The default \<open>ErrHandler\<close> returns an
  \<open>HTTPError\<close> of code 500 and leaves the context alone; that code differs from the denial
  \<open>StatusCode\<close> exactly when the configuration does not set \<open>StatusCode\<close> to 500 (so always
  with the default 429).
\<close>

theorem engine_error_forwards_or_calls_ErrHandler:
  assumes "NewWithConfig lib config = Inr mw"
    and "Skipper (resolve lib config) = Some sk" and "sk (ctx s) = (False, c1)"
    and "Key (resolve lib config) = Some kf" and "kf c1 = (k, c2)"
    and "Allow lib (NewLimiter (Rediser config)) k (limit_of (resolve lib config)) (store s) = (Inl err, e)"
    and "ErrHandler (resolve lib config) = Some eh"
  shows "(SkipOnError (resolve lib config) \<longrightarrow>
           (let c3 = c2\<lparr>Logger := Logger c2 @ [err]\<rparr>
            in mw nxt s =
                 Inr (fst (nxt c3),
                      s\<lparr>ctx := snd (nxt c3), store := e,
                        trace := trace s @
                          [SkipperCalled, KeyCalled, AllowCalled k (limit_of (resolve lib config)),
                           NextCalled]\<rparr>) \<and>
               Response c3 = Response c2)) \<and>
         (\<not> SkipOnError (resolve lib config) \<longrightarrow>
           (let c3 = c2\<lparr>Logger := Logger c2 @ [err]\<rparr>
            in mw nxt s =
                 Inr (fst (eh err c3),
                      s\<lparr>ctx := snd (eh err c3), store := e,
                        trace := trace s @
                          [SkipperCalled, KeyCalled, AllowCalled k (limit_of (resolve lib config)),
                           ErrHandlerCalled err]\<rparr>))) \<and>
         SkipOnError (resolve lib config) = SkipOnError config \<and>
         (ErrHandler config = None \<longrightarrow>
            (\<forall>c. eh err c = (Inr (Some (HTTPError 500 err)), c)) \<and>
            ((500 \<noteq> StatusCode (resolve lib config)) = (StatusCode config \<noteq> 500)))"
proof -
  obtain h where h: "Handler (resolve lib config) = Some h"
    by (simp add: resolve_Handler)
  note run = run_not_skipped [OF assms(1) assms(2) assms(3) assms(4) assms(5) assms(6) h assms(7), of nxt]
  have forward: "SkipOnError (resolve lib config) \<longrightarrow>
           (let c3 = c2\<lparr>Logger := Logger c2 @ [err]\<rparr>
            in mw nxt s =
                 Inr (fst (nxt c3),
                      s\<lparr>ctx := snd (nxt c3), store := e,
                        trace := trace s @
                          [SkipperCalled, KeyCalled, AllowCalled k (limit_of (resolve lib config)),
                           NextCalled]\<rparr>) \<and>
               Response c3 = Response c2)"
    using run by (simp add: Let_def)
  have closed: "\<not> SkipOnError (resolve lib config) \<longrightarrow>
           (let c3 = c2\<lparr>Logger := Logger c2 @ [err]\<rparr>
            in mw nxt s =
                 Inr (fst (eh err c3),
                      s\<lparr>ctx := snd (eh err c3), store := e,
                        trace := trace s @
                          [SkipperCalled, KeyCalled, AllowCalled k (limit_of (resolve lib config)),
                           ErrHandlerCalled err]\<rparr>))"
    using run by (simp add: Let_def)
  have default: "ErrHandler config = None \<longrightarrow>
            (\<forall>c. eh err c = (Inr (Some (HTTPError 500 err)), c)) \<and>
            ((500 \<noteq> StatusCode (resolve lib config)) = (StatusCode config \<noteq> 500))"
    using assms(7)
    by (auto simp: resolve_ErrHandler resolve_StatusCode NewHTTPError_def StatusInternalServerError_def)
  from forward closed default show ?thesis
    by (simp only: resolve_SkipOnError simp_thms)
qed

theorem engine_error_forwards_or_calls_ErrHandler_witness:
  "(case middleware ex_lib (resolve ex_lib ex_config) ex_next (ex_state [Inl ex_failure]) of
      Inl p \<Rightarrow> False
    | Inr (r, s') \<Rightarrow>
        r = Inr (Some (HTTPError 500 ex_failure)) \<and>
        trace s' =
          [SkipperCalled, KeyCalled,
           AllowCalled ''127.0.0.1''
             \<lparr>Limit_Period = 10000000000, Limit_Algorithm = 3, Rate = 3, Limit_Burst = 3\<rparr>,
           ErrHandlerCalled ex_failure] \<and>
        Logger (ctx s') = [ex_failure] \<and> Response (ctx s') = Response ex_context) \<and>
   (case middleware ex_lib (resolve ex_lib (ex_config\<lparr>SkipOnError := True\<rparr>))
           ex_next (ex_state [Inl ex_failure]) of
      Inl p \<Rightarrow> False
    | Inr (r, s') \<Rightarrow>
        r = Inr None \<and>
        trace s' =
          [SkipperCalled, KeyCalled,
           AllowCalled ''127.0.0.1''
             \<lparr>Limit_Period = 10000000000, Limit_Algorithm = 3, Rate = 3, Limit_Burst = 3\<rparr>,
           NextCalled] \<and>
        Logger (ctx s') = [ex_failure] \<and> Status (Response (ctx s')) = 200 \<and>
        Header_Get ''X-RateLimit-Limit'' (Header (Response (ctx s'))) = [] \<and>
        Header_Get ''Retry-After'' (Header (Response (ctx s'))) = []) \<and>
   500 \<noteq> StatusCode (resolve ex_lib ex_config)"
proof -
  let ?open = "ex_config\<lparr>SkipOnError := True\<rparr>"
  let ?eh = "(\<lambda>err ctx. (Inr (Some (NewHTTPError StatusInternalServerError err)), ctx))
               :: go_error \<Rightarrow> string HandlerFunc"
  have mw: "NewWithConfig ex_lib ex_config = Inr (middleware ex_lib (resolve ex_lib ex_config))"
    "NewWithConfig ex_lib ?open = Inr (middleware ex_lib (resolve ex_lib ?open))"
    by (simp_all add: NewWithConfig_def ex_config_def)
  have sk: "Skipper (resolve ex_lib ex_config) = Some DefaultSkipper"
    "Skipper (resolve ex_lib ?open) = Some DefaultSkipper"
    by (simp_all add: resolve_Skipper ex_config_def)
  have skip: "DefaultSkipper (ctx (ex_state [Inl ex_failure])) = (False, ex_context)"
    by (simp add: DefaultSkipper_def ex_state_def)
  have kf: "Key (resolve ex_lib ex_config) = Some DefaultKey"
    "Key (resolve ex_lib ?open) = Some DefaultKey"
    by (simp_all add: resolve_Key ex_config_def)
  have key: "DefaultKey ex_context = (''127.0.0.1'', ex_context)"
    by (simp add: DefaultKey_def ex_context_def)
  have allow: "Allow ex_lib (NewLimiter (Rediser ex_config)) ''127.0.0.1''
      (limit_of (resolve ex_lib ex_config)) (store (ex_state [Inl ex_failure])) = (Inl ex_failure, [])"
    "Allow ex_lib (NewLimiter (Rediser ?open)) ''127.0.0.1''
      (limit_of (resolve ex_lib ?open)) (store (ex_state [Inl ex_failure])) = (Inl ex_failure, [])"
    by (simp_all add: ex_lib_def ex_state_def)
  have eh: "ErrHandler (resolve ex_lib ex_config) = Some ?eh"
    "ErrHandler (resolve ex_lib ?open) = Some ?eh"
    by (simp_all add: resolve_ErrHandler ex_config_def)
  have flags: "\<not> SkipOnError (resolve ex_lib ex_config)" "SkipOnError (resolve ex_lib ?open)"
    "ErrHandler ex_config = None" "ErrHandler ?open = None"
    "StatusCode ex_config \<noteq> 500" "StatusCode ?open \<noteq> 500"
    by (simp_all add: resolve_SkipOnError ex_config_def)
  have limits:
    "limit_of (resolve ex_lib ex_config)
       = \<lparr>Limit_Period = 10000000000, Limit_Algorithm = 3, Rate = 3, Limit_Burst = 3\<rparr>"
    "limit_of (resolve ex_lib ?open)
       = \<lparr>Limit_Period = 10000000000, Limit_Algorithm = 3, Rate = 3, Limit_Burst = 3\<rparr>"
    by (simp_all add: limit_of_resolve ex_config_def Second_def)
  from engine_error_forwards_or_calls_ErrHandler
         [OF mw(1) sk(1) skip kf(1) key allow(1) eh(1), where nxt = ex_next]
       engine_error_forwards_or_calls_ErrHandler
         [OF mw(2) sk(2) skip kf(2) key allow(2) eh(2), where nxt = ex_next]
       flags
  show ?thesis
    by (simp add: limits Let_def ex_next_def ctx_String_def ex_context_def ex_state_def
        Header_Get_def Header_Set_def NewHTTPError_def StatusInternalServerError_def)
qed

section \<open>Configuration resolution\<close>

text \<open>
  C5. Resolution substitutes field by field: a nil \<open>Skipper\<close>, \<open>Key\<close>, \<open>Handler\<close> or
  \<open>ErrHandler\<close>, a zero \<open>Max\<close>, \<open>Burst\<close>, \<open>StatusCode\<close>, \<open>Algorithm\<close> or \<open>Period\<close> and an empty
  \<open>Message\<close> or \<open>Prefix\<close> become the documented default (the skipper that never skips, the
  caller's real IP, the handler that writes the resolved status and message, the handler
  that returns an internal-error \<open>HTTPError\<close>, 10, 10, 429, the sliding-window constant,
  one minute, the default message, "echo_limiter"); every other value is kept, as are
  \<open>Rediser\<close> and \<open>SkipOnError\<close>. Resolution is a function of its input, and resolving a
  resolved configuration changes nothing.
\<close>

theorem resolve_substitutes_defaults:
  "Skipper (resolve lib config)
     = (case Skipper config of None \<Rightarrow> Some (\<lambda>c. (False, c)) | Some f \<Rightarrow> Some f) \<and>
   Rediser (resolve lib config) = Rediser config \<and>
   Max_cfg (resolve lib config) = (if Max_cfg config = 0 then 10 else Max_cfg config) \<and>
   Burst (resolve lib config) = (if Burst config = 0 then 10 else Burst config) \<and>
   StatusCode (resolve lib config) = (if StatusCode config = 0 then 429 else StatusCode config) \<and>
   Message (resolve lib config)
     = (if Message config = [] then ''Too many requests, please try again later.''
        else Message config) \<and>
   Algorithm (resolve lib config)
     = (if Algorithm config = 0 then SlidingWindowAlgorithm lib else Algorithm config) \<and>
   Prefix (resolve lib config) = (if Prefix config = [] then ''echo_limiter'' else Prefix config) \<and>
   SkipOnError (resolve lib config) = SkipOnError config \<and>
   Period (resolve lib config) = (if Period config = 0 then 60 * 1000000000 else Period config) \<and>
   Key (resolve lib config)
     = (case Key config of None \<Rightarrow> Some (\<lambda>c. (RealIP c, c)) | Some f \<Rightarrow> Some f) \<and>
   Handler (resolve lib config)
     = (case Handler config of
          None \<Rightarrow> Some (ctx_String (StatusCode (resolve lib config)) (Message (resolve lib config)))
        | Some h \<Rightarrow> Some h) \<and>
   ErrHandler (resolve lib config)
     = (case ErrHandler config of
          None \<Rightarrow> Some (\<lambda>err c. (Inr (Some (HTTPError 500 err)), c))
        | Some eh \<Rightarrow> Some eh) \<and>
   resolve lib (resolve lib config) = resolve lib config"
proof -
  have skipper: "Skipper (resolve lib config)
     = (case Skipper config of None \<Rightarrow> Some (\<lambda>c. (False, c)) | Some f \<Rightarrow> Some f)"
    by (simp add: resolve_Skipper DefaultSkipper_def fun_eq_iff split: option.splits)
  have key: "Key (resolve lib config)
     = (case Key config of None \<Rightarrow> Some (\<lambda>c. (RealIP c, c)) | Some f \<Rightarrow> Some f)"
    by (simp add: resolve_Key DefaultKey_def fun_eq_iff split: option.splits)
  have handler: "Handler (resolve lib config)
     = (case Handler config of
          None \<Rightarrow> Some (ctx_String (StatusCode (resolve lib config)) (Message (resolve lib config)))
        | Some h \<Rightarrow> Some h)"
    by (simp add: resolve_Handler split: option.splits)
  have errhandler: "ErrHandler (resolve lib config)
     = (case ErrHandler config of
          None \<Rightarrow> Some (\<lambda>err c. (Inr (Some (HTTPError 500 err)), c))
        | Some eh \<Rightarrow> Some eh)"
    by (simp add: resolve_ErrHandler NewHTTPError_def StatusInternalServerError_def fun_eq_iff
        split: option.splits)
  have message: "Message (resolve lib config)
     = (if Message config = [] then ''Too many requests, please try again later.''
        else Message config)"
    by (simp add: resolve_Message defaultMessage_def)
  have prefix: "Prefix (resolve lib config)
     = (if Prefix config = [] then ''echo_limiter'' else Prefix config)"
    by (simp add: resolve_Prefix DefaultKeyPrefix_def)
  have period: "Period (resolve lib config)
     = (if Period config = 0 then 60 * 1000000000 else Period config)"
    by (simp add: resolve_Period Minute_def Second_def)
  have again: "resolve lib (resolve lib config) = resolve lib config"
  proof (rule Config.equality)
    show "Skipper (resolve lib (resolve lib config)) = Skipper (resolve lib config)"
      by (simp add: resolve_Skipper)
    show "Rediser (resolve lib (resolve lib config)) = Rediser (resolve lib config)"
      by (simp add: resolve_Rediser)
    show "Max_cfg (resolve lib (resolve lib config)) = Max_cfg (resolve lib config)"
      by (simp add: resolve_Max)
    show "Burst (resolve lib (resolve lib config)) = Burst (resolve lib config)"
      by (simp add: resolve_Burst)
    show "StatusCode (resolve lib (resolve lib config)) = StatusCode (resolve lib config)"
      by (simp add: resolve_StatusCode)
    show "Message (resolve lib (resolve lib config)) = Message (resolve lib config)"
      by (simp add: resolve_Message)
    show "Algorithm (resolve lib (resolve lib config)) = Algorithm (resolve lib config)"
      by (simp add: resolve_Algorithm)
    show "Prefix (resolve lib (resolve lib config)) = Prefix (resolve lib config)"
      by (simp add: resolve_Prefix)
    show "SkipOnError (resolve lib (resolve lib config)) = SkipOnError (resolve lib config)"
      by (simp add: resolve_SkipOnError)
    show "Period (resolve lib (resolve lib config)) = Period (resolve lib config)"
      by (simp add: resolve_Period)
    show "Key (resolve lib (resolve lib config)) = Key (resolve lib config)"
      by (simp add: resolve_Key)
    show "Handler (resolve lib (resolve lib config)) = Handler (resolve lib config)"
      by (simp add: resolve_Handler [of lib "resolve lib config"] resolve_Handler [of lib config])
    show "ErrHandler (resolve lib (resolve lib config)) = ErrHandler (resolve lib config)"
      by (simp add: resolve_ErrHandler)
    show "Config.more (resolve lib (resolve lib config)) = Config.more (resolve lib config)"
      by (simp add: resolve_more)
  qed
  from skipper key handler errhandler message prefix period again show ?thesis
    by (simp only: resolve_Rediser resolve_Max resolve_Burst resolve_StatusCode resolve_Algorithm
        resolve_SkipOnError simp_thms)
qed

text \<open>The configuration of the example program, resolved.\<close>

theorem resolve_substitutes_defaults_witness:
  "Max_cfg (resolve ex_lib ex_config) = 3 \<and> Burst (resolve ex_lib ex_config) = 3 \<and>
   StatusCode (resolve ex_lib ex_config) = 429 \<and>
   Message (resolve ex_lib ex_config) = ''Too many requests, please try again later.'' \<and>
   Algorithm (resolve ex_lib ex_config) = 3 \<and>
   Prefix (resolve ex_lib ex_config) = ''echo_limiter'' \<and>
   Period (resolve ex_lib ex_config) = 10000000000 \<and>
   Rediser (resolve ex_lib ex_config) = Some 1 \<and>
   \<not> SkipOnError (resolve ex_lib ex_config) \<and>
   Period (resolve ex_lib (ex_config\<lparr>Period := 0\<rparr>)) = 60000000000 \<and>
   Algorithm (resolve ex_lib (ex_config\<lparr>Algorithm := 0\<rparr>)) = 2"
  using resolve_substitutes_defaults [of ex_lib ex_config]
    resolve_substitutes_defaults [of ex_lib "ex_config\<lparr>Period := 0\<rparr>"]
    resolve_substitutes_defaults [of ex_lib "ex_config\<lparr>Algorithm := 0\<rparr>"]
  by (simp add: ex_config_def ex_lib_def Second_def)

section \<open>The key given to the engine\<close>

text \<open>For every request that is not skipped, \<open>Allow\<close> is called once, and its key is what
  the key function returned: nothing is put in front of it.\<close>

lemma engine_key_is_key_function_result:
  assumes "NewWithConfig lib config = Inr mw"
    and "Skipper (resolve lib config) = Some sk" and "sk (ctx s) = (False, c1)"
    and "Key (resolve lib config) = Some kf" and "kf c1 = (k, c2)"
  shows "\<exists>r s'. mw nxt s = Inr (r, s') \<and> allow_keys (new_events s s') = [k]"
proof -
  obtain answer e where allow:
    "Allow lib (NewLimiter (Rediser config)) k (limit_of (resolve lib config)) (store s) = (answer, e)"
    by (cases "Allow lib (NewLimiter (Rediser config)) k (limit_of (resolve lib config)) (store s)")
  from run_events [OF assms allow, of nxt] obtain r s' where
    run: "mw nxt s = Inr (r, s')" and
    events: "trace s' = trace s @
             (if False then [SkipperCalled, NextCalled]
              else [SkipperCalled, KeyCalled, AllowCalled k (limit_of (resolve lib config))] @
                (case answer of
                   Inl err \<Rightarrow>
                     if SkipOnError (resolve lib config) then [NextCalled] else [ErrHandlerCalled err]
                 | Inr result \<Rightarrow>
                     if Allowed result
                     then [HeaderSet ''X-RateLimit-Limit'' (Itoa (Max_cfg (resolve lib config))),
                           HeaderSet ''X-RateLimit-Remaining'' (FormatInt (Remaining result)),
                           HeaderSet ''X-RateLimit-Reset''
                             (FormatInt (Time_Unix (Time_Add (clock s) (ResetAfter result)))),
                           NextCalled]
                     else [HeaderSet ''Retry-After''
                             (FormatInt (Time_Unix (Time_Add (clock s) (RetryAfter result)))),
                           HandlerCalled]))"
    by blast
  have "allow_keys (new_events s s') = [k]"
    unfolding new_events_append [OF events]
    by (cases answer) simp_all
  with run show ?thesis by blast
qed

text \<open>
  C6 says that the key given to \<open>Allow\<close> is the resolved \<open>Prefix\<close>, a colon and the result of
  the key function. The code resolves \<open>Prefix\<close> (lines 131-133, default \<open>DefaultKeyPrefix\<close>)
  and never reads it again: line 169 passes \<open>config.Key(ctx)\<close> alone. With
  \<open>Prefix: "tenantA"\<close> and a request from 127.0.0.1 the engine is asked about the key
  \<open>127.0.0.1\<close>, not \<open>tenantA:127.0.0.1\<close>.
\<close>

theorem engine_key_lacks_prefix:
  "Prefix (resolve ex_lib (ex_config\<lparr>Prefix := ''tenantA''\<rparr>)) = ''tenantA'' \<and>
   (case middleware ex_lib (resolve ex_lib (ex_config\<lparr>Prefix := ''tenantA''\<rparr>))
           ex_next (ex_state [Inr ex_allowed]) of
      Inl p \<Rightarrow> False
    | Inr (r, s') \<Rightarrow>
        allow_keys (trace s') = [''127.0.0.1''] \<and>
        allow_keys (trace s') \<noteq> [''tenantA:127.0.0.1''])"
proof -
  let ?cfg = "ex_config\<lparr>Prefix := ''tenantA''\<rparr>"
  have mw: "NewWithConfig ex_lib ?cfg = Inr (middleware ex_lib (resolve ex_lib ?cfg))"
    by (simp add: NewWithConfig_def ex_config_def)
  have sk: "Skipper (resolve ex_lib ?cfg) = Some DefaultSkipper"
    by (simp add: resolve_Skipper ex_config_def)
  have skip: "DefaultSkipper (ctx (ex_state [Inr ex_allowed])) = (False, ex_context)"
    by (simp add: DefaultSkipper_def ex_state_def)
  have kf: "Key (resolve ex_lib ?cfg) = Some DefaultKey"
    by (simp add: resolve_Key ex_config_def)
  have key: "DefaultKey ex_context = (''127.0.0.1'', ex_context)"
    by (simp add: DefaultKey_def ex_context_def)
  have fresh: "new_events (ex_state a) s' = trace s'" for a and s' :: "(string, (go_error + Result) list) State"
    by (simp add: new_events_def ex_state_def)
  have prefix: "Prefix (resolve ex_lib ?cfg) = ''tenantA''"
    by (simp add: resolve_Prefix)
  from engine_key_is_key_function_result [OF mw sk skip kf key, of ex_next] prefix
  show ?thesis
    by (auto simp: fresh)
qed

section \<open>Signs of the resolved numbers\<close>

text \<open>
  C7, as stated, fails: \<open>Max\<close>, \<open>Burst\<close>, \<open>StatusCode\<close> and \<open>Period\<close> are signed and are only
  compared with zero, so a negative value is accepted and kept. \<open>Config{Max: -1}\<close> with a
  client resolves to \<open>Max = -1\<close>.
\<close>

theorem negative_Max_is_accepted_and_kept:
  "NewWithConfig ex_lib (ex_config\<lparr>Max_cfg := - 1\<rparr>)
     = Inr (middleware ex_lib (resolve ex_lib (ex_config\<lparr>Max_cfg := - 1\<rparr>))) \<and>
   Max_cfg (resolve ex_lib (ex_config\<lparr>Max_cfg := - 1\<rparr>)) = - 1 \<and>
   \<not> 0 < Max_cfg (resolve ex_lib (ex_config\<lparr>Max_cfg := - 1\<rparr>))"
  by (simp add: NewWithConfig_def resolve_Max ex_config_def)

text \<open>
  C7, amended. After a resolution that succeeds, \<open>Max\<close>, \<open>Burst\<close>, \<open>StatusCode\<close> and \<open>Period\<close>
  are not zero, and each of them is greater than zero exactly when the value supplied was
  not negative. The unsigned \<open>Algorithm\<close> is greater than zero exactly when the value
  supplied was not zero or the engine's constant \<open>SlidingWindowAlgorithm\<close> is not zero.
\<close>

theorem resolved_numbers_are_not_zero:
  assumes "NewWithConfig lib config = Inr mw"
  shows "Max_cfg (resolve lib config) \<noteq> 0 \<and> Burst (resolve lib config) \<noteq> 0 \<and>
         StatusCode (resolve lib config) \<noteq> 0 \<and> Period (resolve lib config) \<noteq> 0 \<and>
         (0 < Max_cfg (resolve lib config)) = (0 \<le> Max_cfg config) \<and>
         (0 < Burst (resolve lib config)) = (0 \<le> Burst config) \<and>
         (0 < StatusCode (resolve lib config)) = (0 \<le> StatusCode config) \<and>
         (0 < Period (resolve lib config)) = (0 \<le> Period config) \<and>
         (Max_cfg config < 0 \<longrightarrow> Max_cfg (resolve lib config) = Max_cfg config) \<and>
         (Burst config < 0 \<longrightarrow> Burst (resolve lib config) = Burst config) \<and>
         (StatusCode config < 0 \<longrightarrow> StatusCode (resolve lib config) = StatusCode config) \<and>
         (Period config < 0 \<longrightarrow> Period (resolve lib config) = Period config) \<and>
         (0 < Algorithm (resolve lib config))
           = (Algorithm config \<noteq> 0 \<or> SlidingWindowAlgorithm lib \<noteq> 0)"
proof -
  have kept: "Max_cfg config < 0 \<longrightarrow> Max_cfg (resolve lib config) = Max_cfg config"
    "Burst config < 0 \<longrightarrow> Burst (resolve lib config) = Burst config"
    "StatusCode config < 0 \<longrightarrow> StatusCode (resolve lib config) = StatusCode config"
    "Period config < 0 \<longrightarrow> Period (resolve lib config) = Period config"
    by (simp_all add: resolve_Max resolve_Burst resolve_StatusCode resolve_Period)
  have max: "Max_cfg (resolve lib config) \<noteq> 0"
    "(0 < Max_cfg (resolve lib config)) = (0 \<le> Max_cfg config)"
    by (auto simp: resolve_Max)
  have burst: "Burst (resolve lib config) \<noteq> 0"
    "(0 < Burst (resolve lib config)) = (0 \<le> Burst config)"
    by (auto simp: resolve_Burst)
  have status: "StatusCode (resolve lib config) \<noteq> 0"
    "(0 < StatusCode (resolve lib config)) = (0 \<le> StatusCode config)"
    by (auto simp: resolve_StatusCode)
  have period: "Period (resolve lib config) \<noteq> 0"
    "(0 < Period (resolve lib config)) = (0 \<le> Period config)"
    by (auto simp: resolve_Period Minute_def Second_def)
  have algorithm: "(0 < Algorithm (resolve lib config))
           = (Algorithm config \<noteq> 0 \<or> SlidingWindowAlgorithm lib \<noteq> 0)"
    by (auto simp: resolve_Algorithm)
  from max burst status period kept algorithm show ?thesis
    by blast
qed

theorem resolved_numbers_are_not_zero_witness:
  "0 < Max_cfg (resolve ex_lib ex_config) \<and> 0 < Burst (resolve ex_lib ex_config) \<and>
   0 < StatusCode (resolve ex_lib ex_config) \<and> 0 < Period (resolve ex_lib ex_config) \<and>
   0 < Algorithm (resolve ex_lib ex_config)"
proof -
  have mw: "NewWithConfig ex_lib ex_config = Inr (middleware ex_lib (resolve ex_lib ex_config))"
    by (simp add: NewWithConfig_def ex_config_def)
  have given: "0 \<le> Max_cfg ex_config" "0 \<le> Burst ex_config" "0 \<le> StatusCode ex_config"
    "0 \<le> Period ex_config" "Algorithm ex_config \<noteq> 0"
    by (simp_all add: ex_config_def Second_def)
  from resolved_numbers_are_not_zero [OF mw] given show ?thesis
    by simp
qed

section \<open>One engine call, one ending\<close>

text \<open>
  C9. For every request the handler comes to its end, and on the way it calls \<open>Allow\<close> at
  most once; whatever the path (skip, engine error forwarded, engine error handled,
  denied, allowed), exactly one of the calls that end the handling is made (the next
  handler, \<open>Handler\<close> or \<open>ErrHandler\<close>), and it is the last thing the handler does: the
  outcome of that call is the outcome of the handler.
\<close>

theorem handler_calls_engine_at_most_once:
  assumes "NewWithConfig lib config = Inr mw"
  shows "\<exists>r s'. mw nxt s = Inr (r, s') \<and>
           trace s' = trace s @ new_events s s' \<and>
           length (filter is_AllowCalled (new_events s s')) \<le> 1 \<and>
           length (filter is_terminal (new_events s s')) = 1 \<and>
           new_events s s' \<noteq> [] \<and> is_terminal (last (new_events s s'))"
proof -
  obtain sk skip c1 kf k c2 answer e where names:
    "Skipper (resolve lib config) = Some sk" "sk (ctx s) = (skip, c1)"
    "Key (resolve lib config) = Some kf" "kf c1 = (k, c2)"
    "Allow lib (NewLimiter (Rediser config)) k (limit_of (resolve lib config)) (store s) = (answer, e)"
    by (rule run_names)
  from run_events [OF assms names, of nxt] obtain r s' where
    run: "mw nxt s = Inr (r, s')" and
    events: "trace s' = trace s @
             (if skip then [SkipperCalled, NextCalled]
              else [SkipperCalled, KeyCalled, AllowCalled k (limit_of (resolve lib config))] @
                (case answer of
                   Inl err \<Rightarrow>
                     if SkipOnError (resolve lib config) then [NextCalled] else [ErrHandlerCalled err]
                 | Inr result \<Rightarrow>
                     if Allowed result
                     then [HeaderSet ''X-RateLimit-Limit'' (Itoa (Max_cfg (resolve lib config))),
                           HeaderSet ''X-RateLimit-Remaining'' (FormatInt (Remaining result)),
                           HeaderSet ''X-RateLimit-Reset''
                             (FormatInt (Time_Unix (Time_Add (clock s) (ResetAfter result)))),
                           NextCalled]
                     else [HeaderSet ''Retry-After''
                             (FormatInt (Time_Unix (Time_Add (clock s) (RetryAfter result)))),
                           HandlerCalled]))"
    by blast
  have prefix: "trace s' = trace s @ new_events s s'"
    using events by (simp add: new_events_def)
  have counts: "length (filter is_AllowCalled (new_events s s')) \<le> 1 \<and>
           length (filter is_terminal (new_events s s')) = 1 \<and>
           new_events s s' \<noteq> [] \<and> is_terminal (last (new_events s s'))"
    unfolding new_events_append [OF events]
    by (cases answer) simp_all
  from run prefix counts show ?thesis by blast
qed

theorem handler_calls_engine_at_most_once_witness:
  "\<exists>r s'. middleware ex_lib (resolve ex_lib ex_config) ex_next (ex_state [Inr ex_allowed, Inr ex_denied])
             = Inr (r, s') \<and>
          length (filter is_AllowCalled (trace s')) \<le> 1 \<and>
          length (filter is_terminal (trace s')) = 1 \<and>
          is_terminal (last (trace s'))"
proof -
  have mw: "NewWithConfig ex_lib ex_config = Inr (middleware ex_lib (resolve ex_lib ex_config))"
    by (simp add: NewWithConfig_def ex_config_def)
  have fresh: "new_events (ex_state a) s' = trace s'" for a and s' :: "(string, (go_error + Result) list) State"
    by (simp add: new_events_def ex_state_def)
  from handler_calls_engine_at_most_once [OF mw, of ex_next "ex_state [Inr ex_allowed, Inr ex_denied]"]
  show ?thesis
    unfolding fresh by blast
qed

section \<open>\<open>New\<close>\<close>

text \<open>
  C10. For every client \<open>r\<close> (nil or not), \<open>New r\<close> is \<open>NewWithConfig\<close> applied to
  \<open>DefaultConfig\<close> with its \<open>Rediser\<close> set to \<open>r\<close>: the same panic for nil, and otherwise the
  same middleware, that of the same resolved configuration, which is \<open>DefaultConfig\<close> with
  the client and the two default handlers; so both make the same decision on every
  request.
\<close>

theorem New_is_NewWithConfig_of_DefaultConfig:
  "New lib r = NewWithConfig lib ((DefaultConfig lib)\<lparr>Rediser := r\<rparr>) \<and>
   New lib None = Inl (Panic (errorString ''redis client is missing'')) \<and>
   New lib (Some client) = Inr (middleware lib (resolve lib ((DefaultConfig lib)\<lparr>Rediser := Some client\<rparr>))) \<and>
   resolve lib ((DefaultConfig lib)\<lparr>Rediser := r\<rparr>)
     = (DefaultConfig lib)
         \<lparr>Rediser := r,
          Handler := Some (ctx_String 429 ''Too many requests, please try again later.''),
          ErrHandler := Some (\<lambda>err c. (Inr (Some (HTTPError 500 err)), c))\<rparr>"
proof -
  have same: "New lib r = NewWithConfig lib ((DefaultConfig lib)\<lparr>Rediser := r\<rparr>)" for r
    by (simp add: New_def Let_def)
  have closed: "resolve lib ((DefaultConfig lib)\<lparr>Rediser := r\<rparr>)
     = (DefaultConfig lib)
         \<lparr>Rediser := r,
          Handler := Some (ctx_String 429 ''Too many requests, please try again later.''),
          ErrHandler := Some (\<lambda>err c. (Inr (Some (HTTPError 500 err)), c))\<rparr>"
    by (simp add: resolve_closed DefaultConfig_def defaultStatusCode_def StatusTooManyRequests_def
        defaultMessage_def DefaultKeyPrefix_def Minute_def Second_def NewHTTPError_def
        StatusInternalServerError_def)
  show ?thesis
    unfolding same [of None] same [of "Some client"]
    using same [of r] closed
    by (simp add: NewWithConfig_def)
qed

theorem New_is_NewWithConfig_of_DefaultConfig_witness:
  "New ex_lib (Some 1)
     = Inr (middleware ex_lib
         ((DefaultConfig ex_lib)
            \<lparr>Rediser := Some 1,
             Handler := Some (ctx_String 429 ''Too many requests, please try again later.''),
             ErrHandler := Some (\<lambda>err c. (Inr (Some (HTTPError 500 err)), c))\<rparr>))"
proof -
  have made: "New ex_lib (Some 1)
      = Inr (middleware ex_lib (resolve ex_lib ((DefaultConfig ex_lib)\<lparr>Rediser := Some 1\<rparr>)))"
    by (rule New_is_NewWithConfig_of_DefaultConfig [THEN conjunct2, THEN conjunct2, THEN conjunct1])
  have resolved: "resolve ex_lib ((DefaultConfig ex_lib)\<lparr>Rediser := Some 1\<rparr>)
      = (DefaultConfig ex_lib)
          \<lparr>Rediser := Some 1,
           Handler := Some (ctx_String 429 ''Too many requests, please try again later.''),
           ErrHandler := Some (\<lambda>err c. (Inr (Some (HTTPError 500 err)), c))\<rparr>"
    by (rule New_is_NewWithConfig_of_DefaultConfig [THEN conjunct2, THEN conjunct2, THEN conjunct2])
  show ?thesis
    unfolding made resolved ..
qed

end
